theory Spec2Isabelle
  imports Complex_Main "HOL-Library.Sublist"
begin

section \<open>JavaScript strings and numbers\<close>

text \<open>
  A JavaScript string is modelled as a \<^typ>\<open>string\<close>, one \<^typ>\<open>char\<close> per code unit; the
  model is exact for ASCII text. Every pattern and keyword of the program is ASCII, and
  \<open>toLowerCase\<close> maps the letters \<open>A\<close> to \<open>Z\<close> to \<open>a\<close> to \<open>z\<close> and leaves every other
  character alone. A JavaScript \<open>number\<close> is modelled as a \<^typ>\<open>real\<close>: comparisons are
  exact, arithmetic is the exact arithmetic that the IEEE doubles of the program
  approximate, and \<open>NaN\<close> and the infinities are left out. The program is asynchronous
  only to wait for a timer and for the translator; its log output and its delays are not
  modelled.
\<close>

definition upper_letters :: string where
  "upper_letters = ''ABCDEFGHIJKLMNOPQRSTUVWXYZ''"

definition lower_letters :: string where
  "lower_letters = ''abcdefghijklmnopqrstuvwxyz''"

definition lower_char :: "char \<Rightarrow> char" where
  "lower_char c = (case map_of (zip upper_letters lower_letters) c of Some d \<Rightarrow> d | None \<Rightarrow> c)"

definition upper_char :: "char \<Rightarrow> char" where
  "upper_char c = (case map_of (zip lower_letters upper_letters) c of Some d \<Rightarrow> d | None \<Rightarrow> c)"

definition toLowerCase :: "string \<Rightarrow> string" where
  "toLowerCase s = map lower_char s"

definition toUpperCase :: "string \<Rightarrow> string" where
  "toUpperCase s = map upper_char s"

text \<open>\<open>s.includes(p)\<close>: \<open>p\<close> occurs in \<open>s\<close> as a contiguous run of code units.\<close>

fun str_includes :: "string \<Rightarrow> string \<Rightarrow> bool" where
  "str_includes [] p = (p = [])"
| "str_includes (c # cs) p = (prefix p (c # cs) \<or> str_includes cs p)"

text \<open>\<open>s.charAt(0).toUpperCase() + s.slice(1)\<close>\<close>

definition capitalize :: "string \<Rightarrow> string" where
  "capitalize s = (case s of [] \<Rightarrow> [] | c # cs \<Rightarrow> upper_char c # cs)"

text \<open>The decimal digits of an index, as a template literal prints it.\<close>

fun show_nat :: "nat \<Rightarrow> string" where
  "show_nat n =
     (if n < 10 then [''0123456789'' ! n]
      else show_nat (n div 10) @ [''0123456789'' ! (n mod 10)])"

text \<open>\<open>Math.round\<close>: the nearest integer, a tie going up.\<close>

definition js_round :: "real \<Rightarrow> real" where
  "js_round x = of_int \<lfloor>x + 1 / 2\<rfloor>"

text \<open>
  \<open>[...new Set(xs)]\<close>: the elements of \<open>xs\<close> in the order of their first occurrence.
\<close>

definition set_to_array :: "'a list \<Rightarrow> 'a list" where
  "set_to_array xs = foldl (\<lambda>acc x. if x \<in> set acc then acc else acc @ [x]) [] xs"

text \<open>
  \<open>xs.sort((a, b) => key(b) - key(a))\<close>: the sort of the language is stable, and the
  comparator orders by one integer key, descending; the model is the stable insertion
  sort on the negated key. The same shape with a real key serves the sorts by confidence
  and by score.
\<close>

definition sort_desc :: "('a \<Rightarrow> 'k::{linorder, uminus}) \<Rightarrow> 'a list \<Rightarrow> 'a list" where
  "sort_desc key xs = sort_key (\<lambda>x. - key x) xs"

section \<open>The data model (ml-classifier.ts, risk-assessment-engine.ts)\<close>

datatype clause_type = Termination | Nda | Payment | Liability | Intellectual_property

datatype risk_level = Low | Medium | High

text \<open>The string a clause type is in the program.\<close>

fun type_name :: "clause_type \<Rightarrow> string" where
  "type_name Termination = ''termination''"
| "type_name Nda = ''nda''"
| "type_name Payment = ''payment''"
| "type_name Liability = ''liability''"
| "type_name Intellectual_property = ''intellectual_property''"

record ClauseMatch =
  c_type :: clause_type
  c_text :: string
  confidence :: real
  startIndex :: int
  endIndex :: int
  riskLevel :: risk_level
  explanation :: string

record Summary =
  totalClauses :: nat
  highRiskClauses :: nat
  mediumRiskClauses :: nat
  lowRiskClauses :: nat

record ClassificationResult =
  clauses :: "ClauseMatch list"
  summary :: Summary

datatype category = Financial | Legal | Operational | Compliance

datatype severity = Sev_critical | Sev_high | Sev_medium | Sev_low

datatype grade = Grade_A | Grade_B | Grade_C | Grade_D | Grade_F

record RiskFactor =
  rf_id :: string
  rf_category :: category
  rf_severity :: severity
  rf_title :: string
  rf_description :: string
  rf_impact :: string
  rf_recommendation :: string
  rf_clauses :: "clause_type list"

record Recommendations =
  immediate :: "string list"
  shortTerm :: "string list"
  longTerm :: "string list"

record ComplianceIssue =
  jurisdiction :: string
  issues :: "string list"
  ci_severity :: severity

record FinancialImpact =
  potentialLiability :: string
  costRisk :: severity
  fi_description :: string

record RiskAssessment =
  overallRiskScore :: real
  riskGrade :: grade
  riskFactors :: "RiskFactor list"
  recommendations :: Recommendations
  complianceIssues :: "ComplianceIssue list"
  financialImpact :: FinancialImpact

section \<open>The risk assessment engine (risk-assessment-engine.ts)\<close>

fun RISK_WEIGHTS :: "clause_type \<Rightarrow> risk_level \<Rightarrow> real" where
  "RISK_WEIGHTS Termination High = 25"
| "RISK_WEIGHTS Termination Medium = 15"
| "RISK_WEIGHTS Termination Low = 5"
| "RISK_WEIGHTS Liability High = 30"
| "RISK_WEIGHTS Liability Medium = 20"
| "RISK_WEIGHTS Liability Low = 8"
| "RISK_WEIGHTS Payment High = 20"
| "RISK_WEIGHTS Payment Medium = 12"
| "RISK_WEIGHTS Payment Low = 4"
| "RISK_WEIGHTS Nda High = 15"
| "RISK_WEIGHTS Nda Medium = 10"
| "RISK_WEIGHTS Nda Low = 3"
| "RISK_WEIGHTS Intellectual_property High = 18"
| "RISK_WEIGHTS Intellectual_property Medium = 12"
| "RISK_WEIGHTS Intellectual_property Low = 5"

definition CRITICAL_PATTERNS :: "string list" where
  "CRITICAL_PATTERNS =
     [''unlimited liability'', ''personal guarantee'', ''immediate termination without cause'',
      ''waive all rights'', ''perpetual license'', ''no limitation of damages'',
      ''indemnify against all claims'']"

definition COMPLIANCE_RISKS :: "(string \<times> string list) list" where
  "COMPLIANCE_RISKS =
     [(''gdpr'', [''personal data'', ''data processing'', ''data subject rights'', ''privacy policy'']),
      (''employment'', [''at-will employment'', ''non-compete'', ''overtime'', ''benefits'']),
      (''consumer'', [''consumer protection'', ''warranty'', ''return policy'', ''dispute resolution'']),
      (''securities'', [''investment'', ''securities'', ''disclosure'', ''material information''])]"

text \<open>
  \<open>calculateOverallRiskScore\<close>: the two accumulators of the \<open>forEach\<close> loop, then the
  normalisation, \<open>Math.round\<close> and \<open>Math.min(100, _)\<close>.
\<close>

definition calculateOverallRiskScore :: "ClassificationResult \<Rightarrow> real" where
  "calculateOverallRiskScore result =
     (let totalScore =
            foldl (\<lambda>acc clause. acc + RISK_WEIGHTS (c_type clause) (riskLevel clause) * confidence clause)
              0 (clauses result);
          maxPossibleScore =
            foldl (\<lambda>acc clause. acc + RISK_WEIGHTS (c_type clause) High) 0 (clauses result);
          normalizedScore =
            (if maxPossibleScore > 0 then (totalScore / maxPossibleScore) * 100 else 0)
      in min 100 (js_round normalizedScore))"

definition calculateRiskGrade :: "real \<Rightarrow> grade" where
  "calculateRiskGrade score =
     (if score \<le> 20 then Grade_A
      else if score \<le> 40 then Grade_B
      else if score \<le> 60 then Grade_C
      else if score \<le> 80 then Grade_D
      else Grade_F)"

fun getClauseCategoryMapping :: "clause_type \<Rightarrow> category" where
  "getClauseCategoryMapping Payment = Financial"
| "getClauseCategoryMapping Liability = Legal"
| "getClauseCategoryMapping Termination = Operational"
| "getClauseCategoryMapping Nda = Compliance"
| "getClauseCategoryMapping Intellectual_property = Legal"

text \<open>
  The two lookup tables have an entry for three clause types only; the other two take
  the text after \<open>||\<close>.
\<close>

fun getImpactDescription :: "clause_type \<Rightarrow> risk_level \<Rightarrow> string" where
  "getImpactDescription Termination High =
     ''Sudden contract termination could disrupt business operations and result in lost revenue.''"
| "getImpactDescription Termination Medium =
     ''Contract termination may require advance planning and transition period.''"
| "getImpactDescription Termination Low =
     ''Termination process is well-defined with adequate protections.''"
| "getImpactDescription Liability High =
     ''Unlimited liability exposure could result in significant financial losses.''"
| "getImpactDescription Liability Medium = ''Limited liability with reasonable caps on damages.''"
| "getImpactDescription Liability Low = ''Well-protected with mutual liability limitations.''"
| "getImpactDescription Payment High =
     ''Unfavorable payment terms could impact cash flow and profitability.''"
| "getImpactDescription Payment Medium =
     ''Standard payment terms with reasonable collection procedures.''"
| "getImpactDescription Payment Low = ''Fair payment structure with clear terms.''"
| "getImpactDescription _ _ = ''Potential impact requires legal review.''"

fun getRecommendation :: "clause_type \<Rightarrow> risk_level \<Rightarrow> string" where
  "getRecommendation Termination High =
     ''Negotiate for reasonable notice period and cure provisions.''"
| "getRecommendation Termination Medium =
     ''Review termination triggers and ensure mutual protections.''"
| "getRecommendation Termination Low = ''Terms appear balanced and fair.''"
| "getRecommendation Liability High =
     ''Negotiate liability caps and mutual indemnification clauses.''"
| "getRecommendation Liability Medium =
     ''Review indemnification scope and consider additional protections.''"
| "getRecommendation Liability Low = ''Liability terms appear reasonable.''"
| "getRecommendation Payment High =
     ''Negotiate more favorable payment terms and dispute resolution.''"
| "getRecommendation Payment Medium =
     ''Review late payment penalties and collection procedures.''"
| "getRecommendation Payment Low = ''Payment terms appear fair and reasonable.''"
| "getRecommendation _ _ = ''Consult legal counsel for detailed review.''"

record Protection =
  p_title :: string
  p_description :: string
  p_impact :: string
  p_recommendation :: string

definition identifyMissingProtections :: "ClassificationResult \<Rightarrow> string \<Rightarrow> Protection list" where
  "identifyMissingProtections result documentText =
     (let lowerText = toLowerCase documentText in
      (if \<not> str_includes lowerText ''force majeure'' \<and> \<not> str_includes lowerText ''act of god''
       then [\<lparr>p_title = ''Force Majeure Clause'',
              p_description = ''No force majeure protection found in the document.'',
              p_impact = ''May be liable for performance even during unforeseeable circumstances.'',
              p_recommendation = ''Add force majeure clause to protect against uncontrollable events.''\<rparr>]
       else []) @
      (if \<not> str_includes lowerText ''arbitration'' \<and> \<not> str_includes lowerText ''mediation''
          \<and> \<not> str_includes lowerText ''dispute resolution''
       then [\<lparr>p_title = ''Dispute Resolution Mechanism'',
              p_description = ''No clear dispute resolution process specified.'',
              p_impact = ''Disputes may result in costly litigation without clear resolution path.'',
              p_recommendation =
                ''Include arbitration or mediation clause for efficient dispute resolution.''\<rparr>]
       else []))"

fun severityOrder :: "severity \<Rightarrow> int" where
  "severityOrder Sev_critical = 4"
| "severityOrder Sev_high = 3"
| "severityOrder Sev_medium = 2"
| "severityOrder Sev_low = 1"

definition criticalFactor :: "ClassificationResult \<Rightarrow> nat \<Rightarrow> string \<Rightarrow> RiskFactor" where
  "criticalFactor result index pattern =
     \<lparr>rf_id = ''critical-'' @ show_nat index,
      rf_category = Legal,
      rf_severity = Sev_critical,
      rf_title = ''Critical Risk: '' @ capitalize pattern,
      rf_description =
        ''Document contains '' @ [CHR 0x22] @ pattern @ [CHR 0x22]
          @ '' which poses significant legal risk.'',
      rf_impact = ''Could result in unlimited financial exposure or loss of rights.'',
      rf_recommendation =
        ''Immediate legal review required. Consider negotiating alternative terms.'',
      rf_clauses =
        map c_type (filter (\<lambda>c. str_includes (toLowerCase (c_text c)) pattern) (clauses result))\<rparr>"

definition highRiskFactor :: "nat \<Rightarrow> ClauseMatch \<Rightarrow> RiskFactor" where
  "highRiskFactor index clause =
     \<lparr>rf_id = ''high-risk-'' @ show_nat index,
      rf_category = getClauseCategoryMapping (c_type clause),
      rf_severity = Sev_high,
      rf_title = ''High Risk '' @ capitalize (type_name (c_type clause)) @ '' Clause'',
      rf_description = explanation clause,
      rf_impact = getImpactDescription (c_type clause) High,
      rf_recommendation = getRecommendation (c_type clause) High,
      rf_clauses = [c_type clause]\<rparr>"

definition missingFactor :: "nat \<Rightarrow> Protection \<Rightarrow> RiskFactor" where
  "missingFactor index protection =
     \<lparr>rf_id = ''missing-'' @ show_nat index,
      rf_category = Legal,
      rf_severity = Sev_medium,
      rf_title = ''Missing Protection: '' @ p_title protection,
      rf_description = p_description protection,
      rf_impact = p_impact protection,
      rf_recommendation = p_recommendation protection,
      rf_clauses = []\<rparr>"

text \<open>
  \<open>identifyRiskFactors\<close>: the three \<open>forEach\<close> loops push onto one array, in this order,
  and the array is sorted by severity at the end.
\<close>

definition unsortedRiskFactors :: "ClassificationResult \<Rightarrow> string \<Rightarrow> RiskFactor list" where
  "unsortedRiskFactors result documentText =
     (let lowerText = toLowerCase documentText in
      concat (map (\<lambda>(index, pattern).
                if str_includes lowerText pattern then [criticalFactor result index pattern] else [])
              (enumerate 0 CRITICAL_PATTERNS))
      @ map (\<lambda>(index, clause). highRiskFactor index clause)
          (enumerate 0 (filter (\<lambda>c. riskLevel c = High) (clauses result)))
      @ map (\<lambda>(index, protection). missingFactor index protection)
          (enumerate 0 (identifyMissingProtections result documentText)))"

definition identifyRiskFactors :: "ClassificationResult \<Rightarrow> string \<Rightarrow> RiskFactor list" where
  "identifyRiskFactors result documentText =
     sort_desc (\<lambda>f. severityOrder (rf_severity f)) (unsortedRiskFactors result documentText)"

definition generateRecommendations :: "RiskFactor list \<Rightarrow> ClassificationResult \<Rightarrow> Recommendations" where
  "generateRecommendations factors result =
     \<lparr>immediate =
        set_to_array (map rf_recommendation
          (filter (\<lambda>rf. rf_severity rf = Sev_critical \<or> rf_severity rf = Sev_high) factors)),
      shortTerm =
        set_to_array (map rf_recommendation (filter (\<lambda>rf. rf_severity rf = Sev_medium) factors)),
      longTerm =
        set_to_array
          [''Establish regular contract review process with legal counsel.'',
           ''Create standardized contract templates with protective clauses.'',
           ''Implement contract management system for tracking key dates and obligations.'']\<rparr>"

definition assessComplianceRisks :: "string \<Rightarrow> ComplianceIssue list" where
  "assessComplianceRisks documentText =
     (let lowerText = toLowerCase documentText in
      concat (map (\<lambda>(jur, keywords).
        (let foundKeywords = filter (\<lambda>keyword. str_includes lowerText keyword) keywords in
         if length foundKeywords > 0
         then [\<lparr>jurisdiction = toUpperCase jur,
                issues = map (\<lambda>keyword. ''Document references '' @ keyword
                          @ '' - ensure compliance with '' @ toUpperCase jur @ '' regulations.'')
                          foundKeywords,
                ci_severity = (if length foundKeywords > 2 then Sev_high else Sev_medium)\<rparr>]
         else [])) COMPLIANCE_RISKS))"

definition assessFinancialImpact :: "ClassificationResult \<Rightarrow> string \<Rightarrow> FinancialImpact" where
  "assessFinancialImpact result documentText =
     (let highRiskClauses = filter (\<lambda>c. riskLevel c = High) (clauses result);
          lowerText = toLowerCase documentText
      in if str_includes lowerText ''unlimited liability'' \<or> str_includes lowerText ''personal guarantee''
         then \<lparr>potentialLiability = ''Unlimited'', costRisk = Sev_critical,
               fi_description = ''Unlimited liability exposure poses critical financial risk.''\<rparr>
         else if length highRiskClauses > 3
         then \<lparr>potentialLiability = ''Significant'', costRisk = Sev_high,
               fi_description = ''Multiple high-risk clauses create substantial financial exposure.''\<rparr>
         else if length highRiskClauses > 1
         then \<lparr>potentialLiability = ''Moderate'', costRisk = Sev_medium,
               fi_description = ''Some financial risk present but within manageable limits.''\<rparr>
         else \<lparr>potentialLiability = ''Limited'', costRisk = Sev_low,
               fi_description = ''Financial risk appears manageable with current terms.''\<rparr>)"

definition assessRisk :: "ClassificationResult \<Rightarrow> string \<Rightarrow> RiskAssessment" where
  "assessRisk classificationResult documentText =
     (let overallRiskScore' = calculateOverallRiskScore classificationResult;
          riskGrade' = calculateRiskGrade overallRiskScore';
          riskFactors' = identifyRiskFactors classificationResult documentText;
          recommendations' = generateRecommendations riskFactors' classificationResult;
          complianceIssues' = assessComplianceRisks documentText;
          financialImpact' = assessFinancialImpact classificationResult documentText
      in \<lparr>overallRiskScore = overallRiskScore',
          riskGrade = riskGrade',
          riskFactors = riskFactors',
          recommendations = recommendations',
          complianceIssues = complianceIssues',
          financialImpact = financialImpact'\<rparr>)"


section \<open>Regular expressions of literal alternatives\<close>

text \<open>
  Every regular expression of the classifier is an alternation of literal words with the
  flags \<open>g\<close> and \<open>i\<close>; such a pattern is the list of its alternatives. An alternative
  matches at a position when it equals the text there up to the case of ASCII letters;
  the first alternative that matches is taken, and the search for the next match starts
  after the match. No alternative is empty.
\<close>

fun ci_prefix :: "string \<Rightarrow> string \<Rightarrow> bool" where
  "ci_prefix [] s = True"
| "ci_prefix (p # ps) [] = False"
| "ci_prefix (p # ps) (c # cs) = (if lower_char p = lower_char c then ci_prefix ps cs else False)"

fun match_alts :: "string list \<Rightarrow> string \<Rightarrow> nat option" where
  "match_alts [] s = None"
| "match_alts (a # as) s = (if ci_prefix a s then Some (length a) else match_alts as s)"

text \<open>
  The scan of a regular expression with the flag \<open>g\<close> over a text. The matcher \<open>m\<close>
  is given the character before the position (for \<open>\b\<close>) and the rest of the text, and
  returns the length of the match there, if any. \<open>matchAll_from m k i prev s\<close> are the
  matches in \<open>s\<close>, the rest of the text from index \<open>i\<close>, after skipping the \<open>k\<close>
  characters that the previous match still covers. Each match is its index and the
  matched text.
\<close>

fun matchAll_from ::
    "(char option \<Rightarrow> string \<Rightarrow> nat option) \<Rightarrow> nat \<Rightarrow> nat \<Rightarrow> char option \<Rightarrow> string
      \<Rightarrow> (nat \<times> string) list" where
  "matchAll_from m k i prev [] = []"
| "matchAll_from m (Suc k) i prev (c # cs) = matchAll_from m k (Suc i) (Some c) cs"
| "matchAll_from m 0 i prev (c # cs) =
     (case m prev (c # cs) of
        None \<Rightarrow> matchAll_from m 0 (Suc i) (Some c) cs
      | Some n \<Rightarrow> (i, take n (c # cs)) # matchAll_from m (n - 1) (Suc i) (Some c) cs)"

definition regex_matchAll :: "(char option \<Rightarrow> string \<Rightarrow> nat option) \<Rightarrow> string \<Rightarrow> (nat \<times> string) list" where
  "regex_matchAll m s = matchAll_from m 0 0 None s"

definition matchAll :: "string list \<Rightarrow> string \<Rightarrow> (nat \<times> string) list" where
  "matchAll alts s = regex_matchAll (\<lambda>prev. match_alts alts) s"

text \<open>\<open>regex.test(s)\<close> on a fresh regular expression: there is a match.\<close>

definition regex_test :: "string list \<Rightarrow> string \<Rightarrow> bool" where
  "regex_test alts s = (matchAll alts s \<noteq> [])"

text \<open>White space as \<open>\s\<close> and \<open>trim\<close> read it, among the code units below 256.\<close>

definition is_space :: "char \<Rightarrow> bool" where
  "is_space c = (c \<in> set [CHR 0x09, CHR 0x0A, CHR 0x0B, CHR 0x0C, CHR 0x0D, CHR '' '', CHR 0xA0])"

text \<open>\<open>s.replace(/\s+/g, " ")\<close>; the flag says whether the previous character was white.\<close>

fun collapse_from :: "bool \<Rightarrow> string \<Rightarrow> string" where
  "collapse_from inrun [] = []"
| "collapse_from inrun (c # cs) =
     (if is_space c then (if inrun then collapse_from True cs else CHR '' '' # collapse_from True cs)
      else c # collapse_from False cs)"

definition collapse_ws :: "string \<Rightarrow> string" where
  "collapse_ws s = collapse_from False s"

definition trim :: "string \<Rightarrow> string" where
  "trim s = rev (dropWhile is_space (rev (dropWhile is_space s)))"

text \<open>\<open>s.slice(a, b)\<close> for \<open>0 \<le> a\<close> and \<open>b \<le> s.length\<close>.\<close>

definition slice :: "nat \<Rightarrow> nat \<Rightarrow> 'a list \<Rightarrow> 'a list" where
  "slice a b s = take (b - a) (drop a s)"

text \<open>\<open>s.split(sep)\<close> for a separator of one character.\<close>

fun split_char :: "char \<Rightarrow> string \<Rightarrow> string list" where
  "split_char sep [] = [[]]"
| "split_char sep (c # cs) =
     (let r = split_char sep cs in if c = sep then [] # r else (c # hd r) # tl r)"

section \<open>The clause classifier (ml-classifier.ts)\<close>

fun CLAUSE_PATTERNS :: "clause_type \<Rightarrow> string list list" where
  "CLAUSE_PATTERNS Termination =
     [[''terminate'', ''termination'', ''end this agreement'', ''dissolution'', ''breach'',
       ''default'', ''expire''],
      [''notice period'', ''30 days'', ''60 days'', ''immediate termination'', ''cause'',
       ''without cause''],
      [''survival'', ''surviving provisions'', ''post-termination'']]"
| "CLAUSE_PATTERNS Nda =
     [[''confidential'', ''non-disclosure'', ''proprietary'', ''trade secret'', ''confidentiality''],
      [''shall not disclose'', ''maintain confidentiality'', ''protect information''],
      [''return all materials'', ''destroy confidential'']]"
| "CLAUSE_PATTERNS Payment =
     [[''payment'', ''invoice'', ''fee'', ''compensation'', ''salary'', ''remuneration''],
      [''due date'', ''net 30'', ''payment terms'', ''late fees'', ''interest''],
      [''milestone'', ''installment'', ''advance payment'', ''retainer'']]"
| "CLAUSE_PATTERNS Liability =
     [[''liability'', ''damages'', ''indemnify'', ''limitation of liability'',
       ''consequential damages''],
      [''shall not be liable'', ''maximum liability'', ''cap on damages'']]"
| "CLAUSE_PATTERNS Intellectual_property =
     [[''intellectual property'', ''copyright'', ''trademark'', ''patent'', ''work for hire''],
      [''ownership'', ''license'', ''derivative works'', ''moral rights'']]"

text \<open>\<open>Object.keys(CLAUSE_PATTERNS)\<close>, in the order of the object literal.\<close>

definition clause_types :: "clause_type list" where
  "clause_types = [Termination, Nda, Payment, Liability, Intellectual_property]"

definition RISK_KEYWORDS_high :: "string list" where
  "RISK_KEYWORDS_high =
     [''unlimited liability'', ''personal guarantee'', ''immediate termination'', ''no notice'',
      ''perpetual'', ''irrevocable'', ''waive all rights'', ''without cause'', ''sole discretion'',
      ''no limitation'', ''indemnify against all'', ''hold harmless'']"

definition RISK_KEYWORDS_medium :: "string list" where
  "RISK_KEYWORDS_medium =
     [''reasonable notice'', ''material breach'', ''cure period'', ''limited liability'',
      ''indemnification'', ''30 days notice'', ''written notice'', ''breach of contract'',
      ''liquidated damages'']"

definition RISK_KEYWORDS_low :: "string list" where
  "RISK_KEYWORDS_low =
     [''mutual agreement'', ''standard terms'', ''industry standard'', ''reasonable'',
      ''good faith'', ''fair dealing'', ''commercially reasonable'']"

definition preprocessText :: "string \<Rightarrow> string" where
  "preprocessText s =
     trim (collapse_ws
       (map (\<lambda>c. if c \<in> set (upper_letters @ lower_letters @ ''0123456789_'') \<or> is_space c
               then c else CHR '' '')
          (toLowerCase s)))"

definition calculateConfidence :: "string \<Rightarrow> clause_type \<Rightarrow> real" where
  "calculateConfidence s clauseType =
     (let baseConfidence = 0.75;
          contextWords = length (filter (\<lambda>word. length word > 2) (split_char CHR '' '' s));
          relevantWords =
            foldl (\<lambda>acc pattern. acc + length (matchAll pattern s)) 0 (CLAUSE_PATTERNS clauseType);
          lengthBonus = min 0.15 (real (length s) / 1000);
          confidence' =
            min 0.98 (baseConfidence + (real relevantWords / real (max contextWords 10)) * 0.2
                       + lengthBonus)
      in js_round (confidence' * 100) / 100)"

text \<open>
  \<open>assessRisk\<close> of the classifier. \<open>Math.random()\<close> is the next number of a stream
  \<open>rnd\<close>, each in the interval from 0 to 1 without 1; the function takes the position in
  the stream and returns it with the level, one further when a number was drawn.
\<close>

definition assessRisk_clause ::
    "(nat \<Rightarrow> real) \<Rightarrow> nat \<Rightarrow> string \<Rightarrow> clause_type \<Rightarrow> risk_level \<times> nat" where
  "assessRisk_clause rnd n s clauseType =
     (let lowerText = toLowerCase s in
      if list_ex (\<lambda>keyword. str_includes lowerText keyword) RISK_KEYWORDS_high then (High, n)
      else if list_ex (\<lambda>keyword. str_includes lowerText keyword) RISK_KEYWORDS_medium
      then (Medium, n)
      else if clauseType = Termination
              \<and> (str_includes lowerText ''immediate'' \<or> str_includes lowerText ''without notice'')
      then (High, n)
      else if clauseType = Termination
              \<and> (str_includes lowerText ''30 days'' \<or> str_includes lowerText ''notice period'')
      then (Medium, n)
      else if clauseType = Liability
              \<and> (str_includes lowerText ''unlimited'' \<or> str_includes lowerText ''no limit'')
      then (High, n)
      else if clauseType = Liability
              \<and> (str_includes lowerText ''indemnify'' \<or> str_includes lowerText ''damages'')
      then (Medium, n)
      else if clauseType = Payment
              \<and> (str_includes lowerText ''penalty'' \<or> str_includes lowerText ''late fee'')
      then (Medium, n)
      else if clauseType = Payment \<and> str_includes lowerText ''personal guarantee''
      then (High, n)
      else
        (let hasComplexTerms =
               regex_test [''shall'', ''hereby'', ''whereas'', ''notwithstanding'', ''provided that''] s;
             isLongClause = (length s > 300)
         in if hasComplexTerms \<and> isLongClause
            then (if rnd n > 0.6 then Medium else Low, Suc n)
            else (let riskRoll = rnd n
                  in (if riskRoll < 0.1 then High else if riskRoll < 0.4 then Medium else Low,
                      Suc n))))"

fun generateExplanation :: "clause_type \<Rightarrow> risk_level \<Rightarrow> string" where
  "generateExplanation Termination High =
     ''This termination clause may allow immediate termination without notice, which could pose significant risk.''"
| "generateExplanation Termination Medium =
     ''Standard termination clause with reasonable notice period and cure provisions.''"
| "generateExplanation Termination Low =
     ''Balanced termination clause with mutual protections and fair notice requirements.''"
| "generateExplanation Nda High =
     ''Broad confidentiality terms that may be overly restrictive or have unclear scope.''"
| "generateExplanation Nda Medium =
     ''Standard non-disclosure provisions with reasonable scope and duration.''"
| "generateExplanation Nda Low =
     ''Basic confidentiality clause with clear definitions and fair terms.''"
| "generateExplanation Payment High =
     ''Payment terms may include penalties, personal guarantees, or unfavorable conditions.''"
| "generateExplanation Payment Medium =
     ''Standard payment terms with reasonable due dates and late fee provisions.''"
| "generateExplanation Payment Low =
     ''Fair payment structure with clear terms and reasonable collection procedures.''"
| "generateExplanation Liability High =
     ''Liability clause may expose you to unlimited damages or broad indemnification.''"
| "generateExplanation Liability Medium =
     ''Balanced liability terms with some limitations and reasonable indemnification.''"
| "generateExplanation Liability Low =
     ''Well-protected liability clause with caps and mutual indemnification.''"
| "generateExplanation Intellectual_property High =
     ''IP clause may transfer broad rights or include unclear ownership terms.''"
| "generateExplanation Intellectual_property Medium =
     ''Standard IP provisions with reasonable licensing and ownership terms.''"
| "generateExplanation Intellectual_property Low =
     ''Clear IP clause that protects your rights and defines ownership appropriately.''"

text \<open>
  The context windows of \<open>classifyClause\<close>, in the order of its two nested loops: for
  every pattern of the type and every match, the text from 200 characters before the
  match to 200 after it, with white space collapsed and trimmed; a window under 50
  characters is skipped. Each window comes with its start and end offsets. The
  subtraction of natural numbers stops at 0, as \<open>Math.max(0, match.index - 200)\<close> does.
\<close>

definition contextWindows :: "string \<Rightarrow> clause_type \<Rightarrow> (nat \<times> nat \<times> string) list" where
  "contextWindows s ty =
     concat (map (\<lambda>pattern.
       concat (map (\<lambda>(index, matchText).
         (let contextStart = index - 200;
              contextEnd = min (length s) (index + length matchText + 200);
              contextText = trim (collapse_ws (slice contextStart contextEnd s))
          in if length contextText < 50 then [] else [(contextStart, contextEnd, contextText)]))
         (matchAll pattern s)))
       (CLAUSE_PATTERNS ty))"

text \<open>The loop body after the length test, threading the position in the random stream.\<close>

fun pushMatches ::
    "(nat \<Rightarrow> real) \<Rightarrow> nat \<Rightarrow> clause_type \<Rightarrow> (nat \<times> nat \<times> string) list \<Rightarrow> ClauseMatch list \<times> nat" where
  "pushMatches rnd n ty [] = ([], n)"
| "pushMatches rnd n ty ((contextStart, contextEnd, contextText) # ws) =
     (let confidence' = calculateConfidence contextText ty;
          (riskLevel', n') = assessRisk_clause rnd n contextText ty;
          m = \<lparr>c_type = ty, c_text = contextText, confidence = confidence',
               startIndex = int contextStart, endIndex = int contextEnd, riskLevel = riskLevel',
               explanation = generateExplanation ty riskLevel'\<rparr>;
          (ms, n'') = pushMatches rnd n' ty ws
      in (m # ms, n''))"

definition classifyClause ::
    "(nat \<Rightarrow> real) \<Rightarrow> nat \<Rightarrow> string \<Rightarrow> clause_type \<Rightarrow> ClauseMatch list \<times> nat" where
  "classifyClause rnd n s ty = pushMatches rnd n ty (contextWindows s ty)"

text \<open>The loop of \<open>classifyDocument\<close> over the clause types.\<close>

fun classifyAll ::
    "(nat \<Rightarrow> real) \<Rightarrow> nat \<Rightarrow> string \<Rightarrow> clause_type list \<Rightarrow> ClauseMatch list" where
  "classifyAll rnd n s [] = []"
| "classifyAll rnd n s (ty # tys) =
     (let (ms, n') = classifyClause rnd n s ty in ms @ classifyAll rnd n' s tys)"

text \<open>\<open>xs.findIndex(p)\<close>: the first index whose element satisfies \<open>p\<close>, \<open>-1\<close> when none does.\<close>

fun findIndex :: "('a \<Rightarrow> bool) \<Rightarrow> 'a list \<Rightarrow> int" where
  "findIndex p [] = - 1"
| "findIndex p (x # xs) =
     (if p x then 0 else (let k = findIndex p xs in if k < 0 then - 1 else k + 1))"

text \<open>
  The three steps after the loop: the filter that removes duplicates, the sort by
  confidence and the slice to 20.
\<close>

definition removeDuplicates :: "ClauseMatch list \<Rightarrow> ClauseMatch list" where
  "removeDuplicates allClauses =
     map snd (filter (\<lambda>(index, clause).
        int index = findIndex (\<lambda>c. \<bar>startIndex c - startIndex clause\<bar> < 100
                                  \<and> c_type c = c_type clause) allClauses)
       (enumerate 0 allClauses))"

definition uniqueClauses :: "ClauseMatch list \<Rightarrow> ClauseMatch list" where
  "uniqueClauses allClauses = take 20 (sort_desc confidence (removeDuplicates allClauses))"

definition classifyDocument :: "(nat \<Rightarrow> real) \<Rightarrow> string \<Rightarrow> ClassificationResult" where
  "classifyDocument rnd s =
     (let allClauses = classifyAll rnd 0 s clause_types;
          unique = uniqueClauses allClauses
      in \<lparr>clauses = unique,
          summary =
            \<lparr>totalClauses = length unique,
             highRiskClauses = length (filter (\<lambda>c. riskLevel c = High) unique),
             mediumRiskClauses = length (filter (\<lambda>c. riskLevel c = Medium) unique),
             lowRiskClauses = length (filter (\<lambda>c. riskLevel c = Low) unique)\<rparr>\<rparr>)"

text \<open>A text is clause-free when no pattern of any clause type matches in it.\<close>

definition clause_free :: "string \<Rightarrow> bool" where
  "clause_free s =
     list_all (\<lambda>ty. list_all (\<lambda>pattern. matchAll pattern s = []) (CLAUSE_PATTERNS ty)) clause_types"

section \<open>More string functions\<close>

text \<open>
  \<open>s.split(re)\<close> for a regular expression \<open>re\<close> that matches one or more characters of
  a class, as \<open>/[.!?]+/\<close> and \<open>/\s+/\<close> do; the flag says whether the previous character
  was of the class.
\<close>

fun split_runs_from :: "(char \<Rightarrow> bool) \<Rightarrow> bool \<Rightarrow> string \<Rightarrow> string list" where
  "split_runs_from sep inrun [] = [[]]"
| "split_runs_from sep inrun (c # cs) =
     (if sep c then (if inrun then split_runs_from sep True cs else [] # split_runs_from sep True cs)
      else (let r = split_runs_from sep False cs in (c # hd r) # tl r))"

definition split_runs :: "(char \<Rightarrow> bool) \<Rightarrow> string \<Rightarrow> string list" where
  "split_runs sep s = split_runs_from sep False s"

definition sentence_end :: "char \<Rightarrow> bool" where
  "sentence_end c = (c \<in> set ''.!?'')"

text \<open>\<open>xs.join(sep)\<close>\<close>

fun join :: "string \<Rightarrow> string list \<Rightarrow> string" where
  "join sep [] = []"
| "join sep [x] = x"
| "join sep (x # y # ys) = x @ sep @ join sep (y # ys)"

text \<open>\<open>s.charAt(0).toLowerCase() + s.slice(1)\<close>\<close>

definition lowerFirst :: "string \<Rightarrow> string" where
  "lowerFirst s = (case s of [] \<Rightarrow> [] | c # cs \<Rightarrow> lower_char c # cs)"

text \<open>\<open>s.split('. ').length - 1\<close>: the occurrences of a full stop and a space.\<close>

fun count_dot_space :: "string \<Rightarrow> nat" where
  "count_dot_space (a # b # cs) =
     (if a = CHR ''.'' \<and> b = CHR '' '' then Suc (count_dot_space cs) else count_dot_space (b # cs))"
| "count_dot_space cs = 0"

text \<open>\<open>set.add(x)\<close> on a set kept as the list of its elements.\<close>

definition set_add :: "'a \<Rightarrow> 'a list \<Rightarrow> 'a list" where
  "set_add x xs = (if x \<in> set xs then xs else xs @ [x])"

definition is_word_char :: "char \<Rightarrow> bool" where
  "is_word_char c = (c \<in> set (upper_letters @ lower_letters @ ''0123456789_''))"

definition is_digit :: "char \<Rightarrow> bool" where
  "is_digit c = (c \<in> set ''0123456789'')"

section \<open>The abstractive summarizer (client-side-abstractive.ts)\<close>

datatype js_error = TypeError | Error string

datatype summary_method = Rule_based | Pattern_based | Hybrid

datatype importance = Imp_high | Imp_medium | Imp_low

text \<open>
  The content of a section is \<open>None\<close> where the program leaves it \<open>undefined\<close>.
\<close>

record DetailedSection =
  ds_type :: string
  ds_title :: string
  ds_content :: "string option"
  originalQuotes :: "string list"
  ds_importance :: importance

record AbstractiveSummaryResult =
  summary_a :: string
  keyPoints :: "string list"
  confidence_a :: real
  processingTime :: int
  method_a :: summary_method
  originalTermsPreserved :: "string list"
  detailedSections :: "DetailedSection list"

text \<open>
  The matches, in the text that is summarized, of the five regular expressions of
  \<open>preserveOriginalTerms\<close> for dates, amounts of money, percentages, periods of time and
  names of parties (\<open>text.match(re) || []\<close>). They are inputs of the model: the
  summarizer only appends them to the terms it preserves.
\<close>

record EntityMatches =
  dateMatches :: "string list"
  amountMatches :: "string list"
  percentMatches :: "string list"
  periodMatches :: "string list"
  partyMatches :: "string list"

text \<open>The map \<open>legalPatterns\<close>, in the order in which the constructor fills it.\<close>

definition legalPatterns :: "(string \<times> string list) list" where
  "legalPatterns =
     [(''contract'',
        [''This legally binding agreement establishes'', ''The parties hereby agree to'',
         ''This contract outlines the terms and conditions'',
         ''The agreement specifies the obligations'']),
      (''payment'',
        [''Financial compensation shall be provided'', ''Payment terms are structured as follows'',
         ''Monetary considerations include'', ''The financial arrangements specify'']),
      (''termination'',
        [''The agreement may be concluded under'', ''Termination provisions are outlined'',
         ''The contract may be ended when'', ''Conditions for conclusion include'']),
      (''liability'',
        [''Legal responsibilities are defined as'', ''Accountability provisions specify'',
         ''The parties shall be responsible for'', ''Obligations and liabilities include'']),
      (''confidential'',
        [''Privacy protections are implemented through'', ''Confidentiality measures ensure'',
         ''Sensitive information shall be safeguarded'', ''Data protection provisions include'']),
      (''dispute'',
        [''Conflict resolution mechanisms provide'', ''Disagreements shall be addressed through'',
         ''Controversy resolution options include'', ''The parties agree to resolve disputes via'']),
      (''jurisdiction'',
        [''Legal authority is established in'', ''Governing law provisions specify'',
         ''The agreement is subject to'', ''Legal jurisdiction falls under''])]"

definition extractOriginalSentences :: "string \<Rightarrow> string list" where
  "extractOriginalSentences s =
     filter (\<lambda>s. \<not> prefix ''whereof'' (toLowerCase s) \<and> \<not> prefix ''in witness'' (toLowerCase s))
       (filter (\<lambda>s. length s > 15) (map trim (split_runs sentence_end s)))"

text \<open>
  A pattern of \<open>legalPatterns\<close> becomes the regular expression of its words with \<open>\s+\<close>
  between them; \<open>match_phrase\<close> matches the words at the start of a text.
\<close>

fun match_phrase :: "string list \<Rightarrow> string \<Rightarrow> nat option" where
  "match_phrase [] s = Some 0"
| "match_phrase [w] s = (if ci_prefix w s then Some (length w) else None)"
| "match_phrase (w # w' # ws) s =
     (if ci_prefix w s
      then (let r = drop (length w) s; sp = takeWhile is_space r
            in if sp = [] then None
               else map_option (\<lambda>n. length w + length sp + n)
                      (match_phrase (w' # ws) (dropWhile is_space r)))
      else None)"

definition phrase_count :: "string \<Rightarrow> string \<Rightarrow> nat" where
  "phrase_count pattern lowerText =
     length (regex_matchAll (\<lambda>prev. match_phrase (split_runs is_space (toLowerCase pattern)))
               lowerText)"

text \<open>The themes with their counts, a map in the order of \<open>legalPatterns\<close>.\<close>

definition extractLegalThemes :: "string \<Rightarrow> (string \<times> nat) list" where
  "extractLegalThemes s =
     (let lowerText = toLowerCase s in
      concat (map (\<lambda>(theme, patterns).
        (let count = foldl (\<lambda>acc pattern. acc + phrase_count pattern lowerText) 0 patterns
                       + length (matchAll [toLowerCase theme] lowerText) * 2
         in if count > 0 then [(theme, count)] else []))
        legalPatterns))"

text \<open>
  A regular expression \<open>/\b(a|b|...)\b[^.]*\./gi\<close> of \<open>identifyRelationships\<close>: one of
  the alternatives as a whole word, then everything up to the next full stop and the full
  stop. Every alternative starts and ends with a letter.
\<close>

definition rel_match :: "string list \<Rightarrow> char option \<Rightarrow> string \<Rightarrow> nat option" where
  "rel_match alts prev s =
     (if (case prev of None \<Rightarrow> False | Some p \<Rightarrow> is_word_char p) then None
      else (case filter (\<lambda>a. ci_prefix a s
                           \<and> (case drop (length a) s of [] \<Rightarrow> True | c # cs \<Rightarrow> \<not> is_word_char c))
                   alts of
              [] \<Rightarrow> None
            | a # as \<Rightarrow>
                (let r = drop (length a) s
                 in if CHR ''.'' \<in> set r
                    then Some (length a + length (takeWhile (\<lambda>c. c \<noteq> CHR ''.'') r) + 1)
                    else None)))"

definition relationshipPatterns :: "(string \<times> string list) list" where
  "relationshipPatterns =
     [(''conditional'',
        [''if'', ''when'', ''provided that'', ''subject to'', ''in the event that'', ''should'',
         ''unless'']),
      (''obligation'',
        [''shall'', ''must'', ''will'', ''required to'', ''obligated to'', ''responsible for'']),
      (''prohibition'',
        [''shall not'', ''must not'', ''may not'', ''prohibited'', ''restricted'', ''forbidden'']),
      (''permission'',
        [''may'', ''can'', ''permitted to'', ''allowed to'', ''has the right to''])]"

definition identifyRelationships :: "string \<Rightarrow> (string \<times> string list) list" where
  "identifyRelationships s =
     concat (map (\<lambda>(ty, alts).
       (let ms = map (\<lambda>(i, m). trim m) (regex_matchAll (rel_match alts) s)
        in if length ms > 0 then [(ty, ms)] else []))
       relationshipPatterns)"

definition legalTerms :: "string list" where
  "legalTerms =
     [''hereby agrees'', ''shall'', ''must'', ''may not'', ''liable for'', ''indemnify'',
      ''confidential information'', ''proprietary information'', ''trade secrets'',
      ''force majeure'', ''governing law'', ''jurisdiction'', ''arbitration'',
      ''termination'', ''breach'', ''default'', ''cure period'', ''notice period'',
      ''compensation'', ''damages'', ''liquidated damages'', ''penalty'']"

text \<open>
  The phrase around a legal term in a sentence: the first word that contains the first
  word of the term, with up to three words before and after it.
\<close>

definition contextPhrase :: "string \<Rightarrow> string \<Rightarrow> string option" where
  "contextPhrase sentence term' =
     (let words = split_runs is_space sentence;
          termIndex = findIndex (\<lambda>word. str_includes (toLowerCase word) (hd (split_char CHR '' '' term')))
                        words
      in if termIndex \<noteq> - 1
         then (let start = max 0 (termIndex - 3);
                   end' = min (int (length words)) (termIndex + 4)
               in Some (join '' '' (slice (nat start) (nat end') words)))
         else None)"

text \<open>The two nested loops of \<open>preserveOriginalTerms\<close> over the sentences and the terms.\<close>

definition addTermPhrase :: "string \<Rightarrow> string list \<Rightarrow> string \<Rightarrow> string list" where
  "addTermPhrase sentence terms term' =
     (if str_includes (toLowerCase sentence) (toLowerCase term')
      then (case contextPhrase sentence term' of
              Some phrase \<Rightarrow> if phrase \<in> set terms then terms else terms @ [phrase]
            | None \<Rightarrow> terms)
      else terms)"

definition addSentencePhrases :: "string list \<Rightarrow> string \<Rightarrow> string list" where
  "addSentencePhrases terms sentence = foldl (addTermPhrase sentence) terms legalTerms"

definition preserveOriginalTerms :: "EntityMatches \<Rightarrow> string \<Rightarrow> (string \<times> nat) list \<Rightarrow> string list" where
  "preserveOriginalTerms em s themes =
     (let sentences = filter (\<lambda>s. length (trim s) > 10) (split_runs sentence_end s);
          originalTerms = foldl addSentencePhrases [] sentences
      in take 20 (set_to_array
           (originalTerms @ dateMatches em @ amountMatches em @ percentMatches em
              @ periodMatches em @ take 10 (partyMatches em))))"

text \<open>
  \<open>generateSectionSummary\<close> starts from \<open>sentences[0]\<close>, which is \<open>undefined\<close> for an
  empty list; the first of the relevant terms then calls \<open>toLowerCase\<close> on it, which
  throws a \<open>TypeError\<close>.
\<close>

definition generateSectionSummary :: "string list \<Rightarrow> string list \<Rightarrow> js_error + string option" where
  "generateSectionSummary sentences relevantTerms =
     (case sentences of
        [] \<Rightarrow> (if take 3 relevantTerms = [] then Inr None else Inl TypeError)
      | s0 # rest \<Rightarrow>
          Inr (Some (foldl (\<lambda>summary term'.
                 if \<not> str_includes (toLowerCase summary) (toLowerCase term')
                 then summary @ '' The document specifies '' @ term' @ ''.''
                 else summary) s0 (take 3 relevantTerms))))"

definition createThemeSection :: "string \<Rightarrow> string \<Rightarrow> string list \<Rightarrow> js_error + DetailedSection option" where
  "createThemeSection s theme originalTerms =
     (let sentences = filter (\<lambda>s. length (trim s) > 15) (split_runs sentence_end s);
          themeSentences =
            filter (\<lambda>sentence.
              str_includes (toLowerCase sentence) (toLowerCase theme)
              \<or> (case map_of legalPatterns theme of
                    Some patterns \<Rightarrow>
                      list_ex (\<lambda>pattern. str_includes (toLowerCase sentence) (toLowerCase pattern))
                        patterns
                  | None \<Rightarrow> False)) sentences
      in if length themeSentences = 0 then Inr None
         else
           (let relevantTerms =
                  filter (\<lambda>term'. list_ex (\<lambda>sentence.
                            str_includes (toLowerCase sentence) (toLowerCase term')) themeSentences)
                    originalTerms;
                importance' =
                  (if length themeSentences > 2 then Imp_high
                   else if length themeSentences > 1 then Imp_medium else Imp_low)
            in case generateSectionSummary themeSentences relevantTerms of
                 Inl e \<Rightarrow> Inl e
               | Inr content \<Rightarrow>
                   Inr (Some \<lparr>ds_type = theme,
                              ds_title = capitalize theme @ '' Provisions'',
                              ds_content = content,
                              originalQuotes = map trim (take 3 themeSentences),
                              ds_importance = importance'\<rparr>)))"

definition createGeneralSection :: "string \<Rightarrow> string list \<Rightarrow> js_error + DetailedSection" where
  "createGeneralSection s originalTerms =
     (let sentences = filter (\<lambda>s. length (trim s) > 15) (split_runs sentence_end s);
          keySentences = take 5 sentences
      in case generateSectionSummary keySentences originalTerms of
           Inl e \<Rightarrow> Inl e
         | Inr content \<Rightarrow>
             Inr \<lparr>ds_type = ''general'',
                  ds_title = ''General Provisions'',
                  ds_content = content,
                  originalQuotes = map trim (take 3 keySentences),
                  ds_importance = Imp_medium\<rparr>)"

fun importanceOrder :: "importance \<Rightarrow> int" where
  "importanceOrder Imp_high = 3"
| "importanceOrder Imp_medium = 2"
| "importanceOrder Imp_low = 1"

text \<open>The loop of \<open>createDetailedSections\<close> over the themes; an exception ends it.\<close>

fun themeSections ::
    "string \<Rightarrow> string list \<Rightarrow> (string \<times> nat) list \<Rightarrow> js_error + DetailedSection list" where
  "themeSections s originalTerms [] = Inr []"
| "themeSections s originalTerms ((theme, count) # themes) =
     (if count > 0
      then (case createThemeSection s theme originalTerms of
              Inl e \<Rightarrow> Inl e
            | Inr section' \<Rightarrow>
                (case themeSections s originalTerms themes of
                   Inl e \<Rightarrow> Inl e
                 | Inr sections \<Rightarrow>
                     Inr ((case section' of None \<Rightarrow> [] | Some sec \<Rightarrow> [sec]) @ sections)))
      else themeSections s originalTerms themes)"

definition createDetailedSections ::
    "string \<Rightarrow> (string \<times> nat) list \<Rightarrow> (string \<times> string list) list \<Rightarrow> string list
      \<Rightarrow> js_error + DetailedSection list" where
  "createDetailedSections s themes relationships originalTerms =
     (case themeSections s originalTerms themes of
        Inl e \<Rightarrow> Inl e
      | Inr sections \<Rightarrow>
          (if length sections = 0
           then (case createGeneralSection s originalTerms of
                   Inl e \<Rightarrow> Inl e
                 | Inr sec \<Rightarrow> Inr (sort_desc (\<lambda>x. importanceOrder (ds_importance x)) [sec]))
           else Inr (sort_desc (\<lambda>x. importanceOrder (ds_importance x)) sections)))"

definition scoreSentenceImportance :: "string \<Rightarrow> (string \<times> nat) list \<Rightarrow> string list \<Rightarrow> real" where
  "scoreSentenceImportance sentence themes originalTerms =
     (let score1 =
            foldl (\<lambda>score (theme, count).
              if str_includes (toLowerCase sentence) (toLowerCase theme)
              then score + real count * 2 else score) 0 themes;
          score2 =
            foldl (\<lambda>score term'.
              if str_includes (toLowerCase sentence) (toLowerCase term') then score + 3 else score)
              score1 originalTerms;
          score3 = score2 + min (real (length sentence) / 20) 5
      in foldl (\<lambda>score keyword.
           if str_includes (toLowerCase sentence) (toLowerCase keyword) then score + 2 else score)
           score3
           [''shall'', ''must'', ''agreement'', ''contract'', ''party'', ''obligation'', ''liability'',
            ''termination''])"

definition identifySentenceThemes :: "string \<Rightarrow> (string \<times> nat) list \<Rightarrow> string list" where
  "identifySentenceThemes sentence themes =
     map fst (filter (\<lambda>(theme, count). str_includes (toLowerCase sentence) (toLowerCase theme)) themes)"

definition getLegalEnhancement :: "string \<Rightarrow> string" where
  "getLegalEnhancement theme =
     (case map_of
        [(''contract'', ''binding legal obligations''),
         (''payment'', ''financial compensation arrangements''),
         (''termination'', ''ending provisions''),
         (''liability'', ''legal responsibilities''),
         (''confidential'', ''privacy protections''),
         (''dispute'', ''conflict resolution mechanisms''),
         (''jurisdiction'', ''governing law provisions'')] theme of
        Some e \<Rightarrow> e
      | None \<Rightarrow> ''legal provisions'')"

definition isImportantTerm :: "string \<Rightarrow> bool" where
  "isImportantTerm term' =
     (list_ex is_digit term' \<or> str_includes term' ''$'' \<or> str_includes term' ''%''
      \<or> str_includes term' ''Pvt'' \<or> str_includes term' ''Ltd'' \<or> str_includes term' ''Inc''
      \<or> length term' > 10)"

definition areTermsRelated :: "string \<Rightarrow> string \<Rightarrow> bool" where
  "areTermsRelated term1 term2 =
     list_ex (\<lambda>context'.
        list_ex (\<lambda>word. str_includes (toLowerCase term1) (toLowerCase word)) context'
        \<and> list_ex (\<lambda>word. str_includes (toLowerCase term2) (toLowerCase word)) context')
       [[''payment'', ''salary'', ''compensation'', ''amount'', ''$''],
        [''termination'', ''end'', ''conclude'', ''notice'', ''period''],
        [''confidential'', ''proprietary'', ''information'', ''secret'', ''privacy''],
        [''contract'', ''agreement'', ''terms'', ''conditions'', ''provisions''],
        [''party'', ''parties'', ''company'', ''employee'', ''employer''],
        [''date'', ''time'', ''period'', ''duration'', ''when'']]"

text \<open>
  \<open>createThemeSpecificSentence\<close> draws a random number only when a relevant term is
  left; an index outside the four patterns reads \<open>undefined\<close>, which the concatenation
  prints. It returns the sentence, the set of used terms and the position in the random
  stream.
\<close>

definition createThemeSpecificSentence ::
    "(nat \<Rightarrow> real) \<Rightarrow> nat \<Rightarrow> string \<Rightarrow> string list \<Rightarrow> string list \<Rightarrow> string \<times> string list \<times> nat" where
  "createThemeSpecificSentence rnd n theme originalTerms usedTerms =
     (let relevantTerms =
            filter (\<lambda>term'. toLowerCase term' \<notin> set usedTerms)
              (filter (\<lambda>term'.
                 str_includes (toLowerCase term') (toLowerCase theme)
                 \<or> str_includes (toLowerCase theme) (toLowerCase term')
                 \<or> areTermsRelated theme term') originalTerms)
      in if length relevantTerms = 0
         then (''The agreement includes important '' @ theme @ '' provisions'', usedTerms, n)
         else
           (let patterns = (case map_of legalPatterns theme of Some ps \<Rightarrow> ps | None \<Rightarrow> []);
                k = \<lfloor>rnd n * real (length patterns)\<rfloor>;
                selectedPattern =
                  (if 0 \<le> k \<and> k < int (length patterns) then patterns ! nat k else ''undefined'');
                sentence =
                  (if length relevantTerms = 1
                   then selectedPattern @ '' involving '' @ relevantTerms ! 0
                   else if length relevantTerms = 2
                   then selectedPattern @ '' covering '' @ relevantTerms ! 0 @ '' and ''
                          @ relevantTerms ! 1
                   else selectedPattern @ '' addressing '' @ join '', '' (take 2 relevantTerms)
                          @ '' and other related aspects'')
            in (sentence,
                foldl (\<lambda>u term'. set_add (toLowerCase term') u) usedTerms relevantTerms,
                Suc n)))"

fun additionalSentences ::
    "(nat \<Rightarrow> real) \<Rightarrow> nat \<Rightarrow> string list \<Rightarrow> string list \<Rightarrow> string list \<Rightarrow> string list \<times> nat" where
  "additionalSentences rnd n originalTerms usedTerms [] = ([], n)"
| "additionalSentences rnd n originalTerms usedTerms (theme # themes) =
     (let (sentence, usedTerms', n') = createThemeSpecificSentence rnd n theme originalTerms usedTerms;
          (rest, n'') = additionalSentences rnd n' originalTerms usedTerms' themes
      in ((if sentence \<noteq> [] then [sentence] else []) @ rest, n''))"

definition generateAdditionalContent ::
    "(nat \<Rightarrow> real) \<Rightarrow> nat \<Rightarrow> (string \<times> nat) list \<Rightarrow> string list \<Rightarrow> string list \<Rightarrow> string \<times> nat" where
  "generateAdditionalContent rnd n themes originalTerms usedTerms =
     (let coveredThemes = filter (\<lambda>theme. toLowerCase theme \<in> set usedTerms) (map fst themes);
          uncoveredThemes = filter (\<lambda>theme. theme \<notin> set coveredThemes) (map fst themes);
          (sentences, n') = additionalSentences rnd n originalTerms usedTerms (take 3 uncoveredThemes)
      in (join '' ''
            (if length sentences = 0
             then [''The agreement establishes comprehensive legal frameworks and protections for all parties involved.'',
                   ''All provisions are legally binding and enforceable according to applicable laws and regulations.'']
             else sentences),
          n'))"

definition transitions :: "string list" where
  "transitions =
     [''Furthermore,'', ''Additionally,'', ''In addition,'', ''Moreover,'',
      ''The agreement also provides that'', ''Moreover, the contract specifies'',
      ''Additionally, the document states'', ''Furthermore, the terms include'']"

text \<open>
  One round of the first loop of \<open>createSummaryFromOriginalSentences\<close>, on the summary
  so far and the set of used terms.
\<close>

definition summaryStep ::
    "(string \<times> nat) list \<Rightarrow> string list \<Rightarrow> string \<times> string list \<Rightarrow> nat \<times> string
      \<Rightarrow> string \<times> string list" where
  "summaryStep themes originalTerms st x =
     (let (summary', usedTerms) = st; (i, sentence) = x;
          sentenceThemes = identifySentenceThemes sentence themes;
          (enhancedSentence, usedTerms1) =
            (if length sentenceThemes > 0
             then (let enhancement = getLegalEnhancement (sentenceThemes ! 0)
                   in if toLowerCase enhancement \<notin> set usedTerms
                      then (sentence @ '', establishing '' @ enhancement,
                            set_add (toLowerCase enhancement) usedTerms)
                      else (sentence, usedTerms))
             else (sentence, usedTerms));
          summary1 =
            (if i = 0 then enhancedSentence
             else summary' @ '' '' @ transitions ! min (i - 1) (length transitions - 1) @ '' ''
                    @ lowerFirst enhancedSentence);
          usedTerms2 =
            foldl (\<lambda>u term'.
              if str_includes (toLowerCase sentence) (toLowerCase term')
              then set_add (toLowerCase term') u else u) usedTerms1 originalTerms
      in (summary1, usedTerms2))"

definition remainingStep :: "string \<Rightarrow> nat \<times> string \<Rightarrow> string" where
  "remainingStep summary' x =
     (let (index, sentence) = x in
      if length summary' > 0
      then summary' @ '' ''
             @ [''Additionally,'', ''Moreover,'', ''The document further states'',
                ''The terms also specify''] ! min index 3
             @ '' '' @ lowerFirst sentence
      else sentence)"

definition createSummaryFromOriginalSentences ::
    "(nat \<Rightarrow> real) \<Rightarrow> nat \<Rightarrow> string list \<Rightarrow> (string \<times> nat) list \<Rightarrow> string list \<Rightarrow> string \<times> nat" where
  "createSummaryFromOriginalSentences rnd n originalSentences themes originalTerms =
     (if length originalSentences = 0
      then (''The document contains legal provisions and agreements.'', n)
      else
        (let scoredSentences =
               map (\<lambda>(index, sentence).
                      (sentence, scoreSentenceImportance sentence themes originalTerms, index))
                 (enumerate 0 originalSentences);
             topSentences =
               sort_key (\<lambda>(sentence, score, index). index)
                 (take (min 8 (length originalSentences))
                    (sort_desc (\<lambda>(sentence, score, index). score) scoredSentences));
             (summary1, usedTerms) =
               foldl (summaryStep themes originalTerms) ([], [])
                 (enumerate 0 (map fst topSentences));
             remainingSentences =
               take 4 (map snd (filter (\<lambda>(index, sentence).
                 \<not> list_ex (\<lambda>(s', score, index'). index' = index) topSentences
                 \<and> length sentence > 20
                 \<and> take 20 (toLowerCase sentence) \<notin> set usedTerms)
                 (enumerate 0 originalSentences)));
             summary2 = foldl remainingStep summary1 (enumerate 0 remainingSentences);
             unusedImportantTerms =
               filter (\<lambda>term'. toLowerCase term' \<notin> set usedTerms \<and> isImportantTerm term')
                 originalTerms;
             summary3 =
               (if length unusedImportantTerms > 0 \<and> length summary2 < 1500
                then summary2 @ '' The agreement specifically addresses ''
                       @ join '', '' (take 5 unusedImportantTerms) @ ''.''
                else summary2);
             lines = count_dot_space summary3 + 1
         in if lines < 10
            then (let (additionalContent, n') =
                        generateAdditionalContent rnd n themes originalTerms usedTerms
                  in (if additionalContent \<noteq> [] then summary3 @ '' '' @ additionalContent
                      else summary3, n'))
            else (summary3, n)))"

text \<open>The key point of a sentence after the third: its first 15 words.\<close>

definition shortenSentence :: "string \<Rightarrow> string" where
  "shortenSentence sentence =
     (let shortened = join '' '' (take 15 (split_char CHR '' '' sentence))
      in if length shortened < length sentence then shortened @ ''...'' else shortened)"

text \<open>The loop \<open>while (keyPoints.length < 5) keyPoints.push(...)\<close>.\<close>

definition padKeyPoints :: "string list \<Rightarrow> string list" where
  "padKeyPoints kps =
     kps @ replicate (5 - length kps)
             ''The agreement establishes important legal frameworks and protections''"

definition extractKeyPointsFromOriginal ::
    "string list \<Rightarrow> (string \<times> nat) list \<Rightarrow> (string \<times> string list) list \<Rightarrow> string list" where
  "extractKeyPointsFromOriginal originalSentences themes relationships =
     (let scoredSentences =
            map (\<lambda>sentence. (sentence, scoreSentenceImportance sentence themes [])) originalSentences;
          topSentences = take 6 (sort_desc snd scoredSentences);
          keyPoints1 =
            map (\<lambda>(index, (sentence, score)).
                   if index < 3 then sentence else shortenSentence sentence)
              (enumerate 0 topSentences);
          keyPoints2 =
            foldl (\<lambda>kps (ty, rels).
              if length rels > 0 \<and> length kps < 8
              then (let relationship = rels ! 0
                    in if length relationship < 100
                       then kps @ [''The document specifies '' @ ty @ '' requirements: '' @ relationship]
                       else kps)
              else kps) keyPoints1 relationships
      in take 8 (padKeyPoints keyPoints2))"

text \<open>
  \<open>calculateConfidence\<close> of the summarizer. The average of no sentences is \<open>NaN\<close>, which
  is above no bound.
\<close>

definition calculateConfidence_a :: "(string \<times> nat) list \<Rightarrow> string list \<Rightarrow> real" where
  "calculateConfidence_a themes sentences =
     (let c1 = 0.5 + (if length themes > 0 then 0.1 else 0);
          c2 = c1 + (if length themes > 2 then 0.1 else 0);
          avgAbove = (\<lambda>b. sentences \<noteq> []
                       \<and> real (foldl (\<lambda>sum' s. sum' + length s) 0 sentences) / real (length sentences) > b);
          c3 = c2 + (if avgAbove 50 then 0.1 else 0);
          c4 = c3 + (if avgAbove 80 then 0.1 else 0);
          uniqueWords = length (remdups (split_runs is_space (toLowerCase (join '' '' sentences))));
          c5 = c4 + (if uniqueWords > 30 then 0.1 else 0)
      in min c5 0.85)"

text \<open>
  \<open>fallbackSummary(text, startTime)\<close>; \<open>now\<close> is the reading of the clock inside it.
\<close>

definition fallbackSummary :: "int \<Rightarrow> string \<Rightarrow> int \<Rightarrow> AbstractiveSummaryResult" where
  "fallbackSummary now s startTime =
     (let sentences = filter (\<lambda>s. length (trim s) > 20) (split_runs sentence_end s)
      in \<lparr>summary_a = join ''. '' (take 3 sentences) @ ''.'',
          keyPoints = map trim (take 3 sentences),
          confidence_a = 0.6,
          processingTime = now - startTime,
          method_a = Rule_based,
          originalTermsPreserved = [],
          detailedSections = []\<rparr>)"

text \<open>
  The body of the \<open>try\<close> block of \<open>generateAbstractiveSummary\<close>: \<open>Inl\<close> is the exception
  it throws. \<open>time0\<close> and \<open>time1\<close> are the readings of the clock at the start and at the end
  of the block. The key entities that the program extracts next to the themes are not
  used afterwards and are left out.
\<close>

definition summaryBody ::
    "EntityMatches \<Rightarrow> (nat \<Rightarrow> real) \<Rightarrow> int \<Rightarrow> int \<Rightarrow> string \<Rightarrow> js_error + AbstractiveSummaryResult" where
  "summaryBody em rnd time0 time1 s =
     (let originalSentences = extractOriginalSentences s;
          themes = extractLegalThemes s;
          relationships = identifyRelationships s;
          originalTerms = preserveOriginalTerms em s themes
      in case createDetailedSections s themes relationships originalTerms of
           Inl e \<Rightarrow> Inl e
         | Inr sections \<Rightarrow>
             (let (summary', n) =
                    createSummaryFromOriginalSentences rnd 0 originalSentences themes originalTerms;
                  keyPoints' = extractKeyPointsFromOriginal originalSentences themes relationships
              in Inr \<lparr>summary_a = trim summary',
                      keyPoints = keyPoints',
                      confidence_a = calculateConfidence_a themes originalSentences,
                      processingTime = time1 - time0,
                      method_a = Hybrid,
                      originalTermsPreserved = originalTerms,
                      detailedSections = sections\<rparr>))"

text \<open>
  \<open>generateAbstractiveSummary\<close>: the \<open>catch\<close> clause passes the time that has passed,
  \<open>time1 - time0\<close>, to \<open>fallbackSummary\<close>, which reads the clock once more
  (\<open>time2\<close>).
\<close>

definition generateAbstractiveSummary ::
    "EntityMatches \<Rightarrow> (nat \<Rightarrow> real) \<Rightarrow> int \<Rightarrow> int \<Rightarrow> int \<Rightarrow> string \<Rightarrow> AbstractiveSummaryResult" where
  "generateAbstractiveSummary em rnd time0 time1 time2 s =
     (case summaryBody em rnd time0 time1 s of
        Inl e \<Rightarrow> fallbackSummary time2 s (time1 - time0)
      | Inr r \<Rightarrow> r)"


section \<open>The multilingual summarizer (multilingual-summarizer.ts)\<close>











section \<open>Example inputs\<close>

definition clause0 :: ClauseMatch where
  "clause0 =
     \<lparr>c_type = Liability, c_text = ''The Supplier accepts UNLIMITED Liability.'',
      confidence = 0.85, startIndex = 0, endIndex = 41, riskLevel = High,
      explanation =
        ''Liability clause may expose you to unlimited damages or broad indemnification.''\<rparr>"

definition cr0 :: ClassificationResult where
  "cr0 =
     \<lparr>clauses = [clause0],
      summary = \<lparr>totalClauses = 1, highRiskClauses = 1, mediumRiskClauses = 0,
                 lowRiskClauses = 0\<rparr>\<rparr>"


definition doc0 :: string where
  "doc0 = ''The Supplier accepts UNLIMITED Liability.''"

definition rnd0 :: "nat \<Rightarrow> real" where
  "rnd0 n = 0.5"

definition t2 :: string where
  "t2 = ''The sky is blue and the grass is green in the spring time.''"

definition t4 :: string where
  "t4 = ''Either party may terminate this deal at any time now.''"

definition m4 :: ClauseMatch where
  "m4 =
     \<lparr>c_type = Termination, c_text = t4, confidence = 0.82, startIndex = 0, endIndex = 53,
      riskLevel = Low,
      explanation =
        ''Balanced termination clause with mutual protections and fair notice requirements.''\<rparr>"

text \<open>
  Two matches as the classifier finds them in a text of 303 characters that starts with
  ``Termination of this deal'' and ends with ``After a breach or default, or one more breach,
  each side may terminate.'': the match at index 0, whose window is the first 211
  characters, and the match of ``breach'' at index 240, whose window runs from 40 to the
  end and holds four keywords.
\<close>

definition dup1 :: ClauseMatch where
  "dup1 =
     \<lparr>c_type = Termination,
      c_text = ''Termination of this deal is set out here. The two sides will meet in the spring and talk about the plan for the year ahead, and they will then write down what each side has to do, step by step, so that all is clear'',
      confidence = 0.91, startIndex = 0, endIndex = 211, riskLevel = Low,
      explanation =
        ''Balanced termination clause with mutual protections and fair notice requirements.''\<rparr>"

definition dup2 :: ClauseMatch where
  "dup2 =
     \<lparr>c_type = Termination,
      c_text = ''. The two sides will meet in the spring and talk about the plan for the year ahead, and they will then write down what each side has to do, step by step, so that all is clear to both of them. After a breach or default, or one more breach, each side may terminate.'',
      confidence = 0.92, startIndex = 40, endIndex = 303, riskLevel = Low,
      explanation =
        ''Balanced termination clause with mutual protections and fair notice requirements.''\<rparr>"

definition no_entities :: EntityMatches where
  "no_entities =
     \<lparr>dateMatches = [], amountMatches = [], percentMatches = [], periodMatches = [],
      partyMatches = []\<rparr>"

definition t5 :: string where
  "t5 = ''a breach here. a breach here. a breach here. a breach here.''"



section \<open>Properties of the risk assessment engine\<close>

lemma assessRisk_fields:
  "overallRiskScore (assessRisk r t) = calculateOverallRiskScore r"
  "riskGrade (assessRisk r t) = calculateRiskGrade (calculateOverallRiskScore r)"
  "riskFactors (assessRisk r t) = identifyRiskFactors r t"
  "financialImpact (assessRisk r t) = assessFinancialImpact r t"
  by (simp_all add: assessRisk_def Let_def)

text \<open>
  C1. The letter grade of every risk assessment is a function of its overall risk
  score with the boundaries at 20, 40, 60 and 80: grade A exactly for a score of at most
  20, B for a score above 20 and at most 40, C above 40 and at most 60, D above 60 and at
  most 80, and F for every higher score.
\<close>

theorem riskGrade_thresholds:
  "riskGrade (assessRisk r t) = calculateRiskGrade (overallRiskScore (assessRisk r t))
   \<and> (calculateRiskGrade s = Grade_A \<longleftrightarrow> s \<le> 20)
   \<and> (calculateRiskGrade s = Grade_B \<longleftrightarrow> 20 < s \<and> s \<le> 40)
   \<and> (calculateRiskGrade s = Grade_C \<longleftrightarrow> 40 < s \<and> s \<le> 60)
   \<and> (calculateRiskGrade s = Grade_D \<longleftrightarrow> 60 < s \<and> s \<le> 80)
   \<and> (calculateRiskGrade s = Grade_F \<longleftrightarrow> 80 < s)"
  by (simp add: assessRisk_fields calculateRiskGrade_def)






lemma str_includes_iff: "str_includes s p \<longleftrightarrow> (\<exists>a b. s = a @ p @ b)"
proof (induction s)
  case Nil
  then show ?case by auto
next
  case (Cons c cs)
  show ?case
  proof
    assume "str_includes (c # cs) p"
    then consider "prefix p (c # cs)" | "str_includes cs p" by auto
    then show "\<exists>a b. c # cs = a @ p @ b"
    proof cases
      case 1
      then obtain b where "c # cs = p @ b" by (auto simp: prefix_def)
      then have "c # cs = [] @ p @ b" by simp
      then show ?thesis by blast
    next
      case 2
      with Cons obtain a b where "cs = a @ p @ b" by blast
      then have "c # cs = (c # a) @ p @ b" by simp
      then show ?thesis by blast
    qed
  next
    assume "\<exists>a b. c # cs = a @ p @ b"
    then obtain a b where ab: "c # cs = a @ p @ b" by blast
    show "str_includes (c # cs) p"
    proof (cases a)
      case Nil
      with ab have "prefix p (c # cs)" by (simp add: prefix_def)
      then show ?thesis by simp
    next
      case (Cons x a')
      with ab have "cs = a' @ p @ b" by simp
      with Cons.IH show ?thesis by auto
    qed
  qed
qed

lemma set_sort_desc: "set (sort_desc k xs) = set xs"
  by (simp add: sort_desc_def)

lemma sorted_sort_desc: "sorted (map (\<lambda>x. - k x) (sort_desc k xs))"
  by (simp add: sort_desc_def)

lemma includes_lower:
  "toLowerCase s = p \<Longrightarrow> str_includes (toLowerCase (pre @ s @ post)) p"
  unfolding str_includes_iff toLowerCase_def by (metis map_append)

lemmas eval_strings =
  toLowerCase_def toUpperCase_def lower_char_def upper_char_def upper_letters_def
  lower_letters_def capitalize_def

lemmas eval_engine =
  assessRisk_fields identifyRiskFactors_def unsortedRiskFactors_def sort_desc_def
  CRITICAL_PATTERNS_def identifyMissingProtections_def assessFinancialImpact_def
  criticalFactor_def highRiskFactor_def missingFactor_def Let_def enumerate_eq_zip upt_rec

text \<open>
  C3. For every document text that contains the phrase "unlimited liability" in any
  letter case (a run of characters whose lower-casing is the phrase), whatever the
  classification result, the risk assessment holds at least one risk factor of severity
  critical and its financial impact has the cost-risk tier critical.
\<close>

theorem unlimited_liability_critical:
  assumes "toLowerCase s = ''unlimited liability''"
  shows "(\<exists>f \<in> set (riskFactors (assessRisk r (pre @ s @ post))). rf_severity f = Sev_critical)
         \<and> costRisk (financialImpact (assessRisk r (pre @ s @ post))) = Sev_critical"
proof -
  let ?t = "pre @ s @ post"
  have inc: "str_includes (toLowerCase ?t) ''unlimited liability''"
    using assms by (rule includes_lower)
  have "criticalFactor r 0 ''unlimited liability'' \<in> set (unsortedRiskFactors r ?t)"
    using inc
    by (simp add: unsortedRiskFactors_def CRITICAL_PATTERNS_def Let_def enumerate_eq_zip upt_rec)
  then have "criticalFactor r 0 ''unlimited liability'' \<in> set (riskFactors (assessRisk r ?t))"
    by (simp add: assessRisk_fields identifyRiskFactors_def set_sort_desc)
  moreover have "rf_severity (criticalFactor r 0 ''unlimited liability'') = Sev_critical"
    by (simp add: criticalFactor_def)
  moreover have "costRisk (financialImpact (assessRisk r ?t)) = Sev_critical"
    using inc by (simp add: assessRisk_fields assessFinancialImpact_def Let_def)
  ultimately show ?thesis by blast
qed

theorem unlimited_liability_critical_witness:
  "(\<exists>f \<in> set (riskFactors (assessRisk cr0 doc0)). rf_severity f = Sev_critical)
   \<and> costRisk (financialImpact (assessRisk cr0 doc0)) = Sev_critical
   \<and> map rf_id (riskFactors (assessRisk cr0 doc0))
       = [''critical-0'', ''high-risk-0'', ''missing-0'', ''missing-1'']"
proof -
  have h: "toLowerCase ''UNLIMITED Liability'' = ''unlimited liability''"
    by (simp add: eval_strings)
  have d: "doc0 = ''The Supplier accepts '' @ ''UNLIMITED Liability'' @ ''.''"
    by (simp add: doc0_def)
  have "map rf_id (riskFactors (assessRisk cr0 doc0))
          = [''critical-0'', ''high-risk-0'', ''missing-0'', ''missing-1'']"
    by (simp add: eval_engine eval_strings cr0_def clause0_def doc0_def)
  then show ?thesis
    using unlimited_liability_critical [OF h, of cr0 "''The Supplier accepts ''" "''.''"]
    unfolding d by simp
qed

text \<open>
  C6. The risk factors of every risk assessment are sorted by severity rank, not
  increasing, with critical = 4, high = 3, medium = 2 and low = 1: for every adjacent
  pair of positions i and i + 1 of the list, the rank at i is at least the rank at i + 1.
\<close>

theorem riskFactors_sorted:
  assumes "Suc i < length (riskFactors (assessRisk r t))"
  shows "severityOrder (rf_severity (riskFactors (assessRisk r t) ! Suc i))
           \<le> severityOrder (rf_severity (riskFactors (assessRisk r t) ! i))
         \<and> severityOrder Sev_critical = 4 \<and> severityOrder Sev_high = 3
         \<and> severityOrder Sev_medium = 2 \<and> severityOrder Sev_low = 1"
proof -
  let ?k = "\<lambda>f. severityOrder (rf_severity f)"
  let ?fs = "riskFactors (assessRisk r t)"
  have "sorted (map (\<lambda>x. - ?k x) ?fs)"
    by (simp add: assessRisk_fields identifyRiskFactors_def sorted_sort_desc)
  then have "map (\<lambda>x. - ?k x) ?fs ! i \<le> map (\<lambda>x. - ?k x) ?fs ! Suc i"
    using assms by (intro sorted_nth_mono) simp_all
  with assms show ?thesis by simp
qed

theorem riskFactors_sorted_witness:
  "length (riskFactors (assessRisk cr0 doc0)) = 4
   \<and> severityOrder (rf_severity (riskFactors (assessRisk cr0 doc0) ! Suc 0))
       \<le> severityOrder (rf_severity (riskFactors (assessRisk cr0 doc0) ! 0))
   \<and> map rf_severity (riskFactors (assessRisk cr0 doc0))
       = [Sev_critical, Sev_high, Sev_medium, Sev_medium]"
proof -
  have m: "map rf_severity (riskFactors (assessRisk cr0 doc0))
             = [Sev_critical, Sev_high, Sev_medium, Sev_medium]"
    by (simp add: eval_engine eval_strings cr0_def clause0_def doc0_def)
  have l: "length (riskFactors (assessRisk cr0 doc0)) = 4"
    using arg_cong [OF m, of length] by simp
  have h: "Suc 0 < length (riskFactors (assessRisk cr0 doc0))"
    using l by simp
  show ?thesis
    using riskFactors_sorted [OF h] l m by simp
qed

section \<open>Evaluation of the string functions on ASCII\<close>

lemma lower_char_ascii:
  "lower_char (CHR 0x20) = CHR 0x20" "lower_char (CHR 0x21) = CHR 0x21" "lower_char (CHR 0x22) = CHR 0x22"
  "lower_char (CHR 0x23) = CHR 0x23" "lower_char (CHR 0x24) = CHR 0x24" "lower_char (CHR 0x25) = CHR 0x25"
  "lower_char (CHR 0x26) = CHR 0x26" "lower_char (CHR 0x27) = CHR 0x27" "lower_char (CHR 0x28) = CHR 0x28"
  "lower_char (CHR 0x29) = CHR 0x29" "lower_char (CHR 0x2A) = CHR 0x2A" "lower_char (CHR 0x2B) = CHR 0x2B"
  "lower_char (CHR 0x2C) = CHR 0x2C" "lower_char (CHR 0x2D) = CHR 0x2D" "lower_char (CHR 0x2E) = CHR 0x2E"
  "lower_char (CHR 0x2F) = CHR 0x2F" "lower_char (CHR 0x30) = CHR 0x30" "lower_char (CHR 0x31) = CHR 0x31"
  "lower_char (CHR 0x32) = CHR 0x32" "lower_char (CHR 0x33) = CHR 0x33" "lower_char (CHR 0x34) = CHR 0x34"
  "lower_char (CHR 0x35) = CHR 0x35" "lower_char (CHR 0x36) = CHR 0x36" "lower_char (CHR 0x37) = CHR 0x37"
  "lower_char (CHR 0x38) = CHR 0x38" "lower_char (CHR 0x39) = CHR 0x39" "lower_char (CHR 0x3A) = CHR 0x3A"
  "lower_char (CHR 0x3B) = CHR 0x3B" "lower_char (CHR 0x3C) = CHR 0x3C" "lower_char (CHR 0x3D) = CHR 0x3D"
  "lower_char (CHR 0x3E) = CHR 0x3E" "lower_char (CHR 0x3F) = CHR 0x3F" "lower_char (CHR 0x40) = CHR 0x40"
  "lower_char (CHR 0x41) = CHR 0x61" "lower_char (CHR 0x42) = CHR 0x62" "lower_char (CHR 0x43) = CHR 0x63"
  "lower_char (CHR 0x44) = CHR 0x64" "lower_char (CHR 0x45) = CHR 0x65" "lower_char (CHR 0x46) = CHR 0x66"
  "lower_char (CHR 0x47) = CHR 0x67" "lower_char (CHR 0x48) = CHR 0x68" "lower_char (CHR 0x49) = CHR 0x69"
  "lower_char (CHR 0x4A) = CHR 0x6A" "lower_char (CHR 0x4B) = CHR 0x6B" "lower_char (CHR 0x4C) = CHR 0x6C"
  "lower_char (CHR 0x4D) = CHR 0x6D" "lower_char (CHR 0x4E) = CHR 0x6E" "lower_char (CHR 0x4F) = CHR 0x6F"
  "lower_char (CHR 0x50) = CHR 0x70" "lower_char (CHR 0x51) = CHR 0x71" "lower_char (CHR 0x52) = CHR 0x72"
  "lower_char (CHR 0x53) = CHR 0x73" "lower_char (CHR 0x54) = CHR 0x74" "lower_char (CHR 0x55) = CHR 0x75"
  "lower_char (CHR 0x56) = CHR 0x76" "lower_char (CHR 0x57) = CHR 0x77" "lower_char (CHR 0x58) = CHR 0x78"
  "lower_char (CHR 0x59) = CHR 0x79" "lower_char (CHR 0x5A) = CHR 0x7A" "lower_char (CHR 0x5B) = CHR 0x5B"
  "lower_char (CHR 0x5C) = CHR 0x5C" "lower_char (CHR 0x5D) = CHR 0x5D" "lower_char (CHR 0x5E) = CHR 0x5E"
  "lower_char (CHR 0x5F) = CHR 0x5F" "lower_char (CHR 0x60) = CHR 0x60" "lower_char (CHR 0x61) = CHR 0x61"
  "lower_char (CHR 0x62) = CHR 0x62" "lower_char (CHR 0x63) = CHR 0x63" "lower_char (CHR 0x64) = CHR 0x64"
  "lower_char (CHR 0x65) = CHR 0x65" "lower_char (CHR 0x66) = CHR 0x66" "lower_char (CHR 0x67) = CHR 0x67"
  "lower_char (CHR 0x68) = CHR 0x68" "lower_char (CHR 0x69) = CHR 0x69" "lower_char (CHR 0x6A) = CHR 0x6A"
  "lower_char (CHR 0x6B) = CHR 0x6B" "lower_char (CHR 0x6C) = CHR 0x6C" "lower_char (CHR 0x6D) = CHR 0x6D"
  "lower_char (CHR 0x6E) = CHR 0x6E" "lower_char (CHR 0x6F) = CHR 0x6F" "lower_char (CHR 0x70) = CHR 0x70"
  "lower_char (CHR 0x71) = CHR 0x71" "lower_char (CHR 0x72) = CHR 0x72" "lower_char (CHR 0x73) = CHR 0x73"
  "lower_char (CHR 0x74) = CHR 0x74" "lower_char (CHR 0x75) = CHR 0x75" "lower_char (CHR 0x76) = CHR 0x76"
  "lower_char (CHR 0x77) = CHR 0x77" "lower_char (CHR 0x78) = CHR 0x78" "lower_char (CHR 0x79) = CHR 0x79"
  "lower_char (CHR 0x7A) = CHR 0x7A" "lower_char (CHR 0x7B) = CHR 0x7B" "lower_char (CHR 0x7C) = CHR 0x7C"
  "lower_char (CHR 0x7D) = CHR 0x7D" "lower_char (CHR 0x7E) = CHR 0x7E" "lower_char (CHR 0x09) = CHR 0x09"
  "lower_char (CHR 0x0A) = CHR 0x0A" "lower_char (CHR 0x0D) = CHR 0x0D"
  by (simp_all add: lower_char_def upper_letters_def lower_letters_def)

lemma upper_char_ascii:
  "upper_char (CHR 0x20) = CHR 0x20" "upper_char (CHR 0x21) = CHR 0x21" "upper_char (CHR 0x22) = CHR 0x22"
  "upper_char (CHR 0x23) = CHR 0x23" "upper_char (CHR 0x24) = CHR 0x24" "upper_char (CHR 0x25) = CHR 0x25"
  "upper_char (CHR 0x26) = CHR 0x26" "upper_char (CHR 0x27) = CHR 0x27" "upper_char (CHR 0x28) = CHR 0x28"
  "upper_char (CHR 0x29) = CHR 0x29" "upper_char (CHR 0x2A) = CHR 0x2A" "upper_char (CHR 0x2B) = CHR 0x2B"
  "upper_char (CHR 0x2C) = CHR 0x2C" "upper_char (CHR 0x2D) = CHR 0x2D" "upper_char (CHR 0x2E) = CHR 0x2E"
  "upper_char (CHR 0x2F) = CHR 0x2F" "upper_char (CHR 0x30) = CHR 0x30" "upper_char (CHR 0x31) = CHR 0x31"
  "upper_char (CHR 0x32) = CHR 0x32" "upper_char (CHR 0x33) = CHR 0x33" "upper_char (CHR 0x34) = CHR 0x34"
  "upper_char (CHR 0x35) = CHR 0x35" "upper_char (CHR 0x36) = CHR 0x36" "upper_char (CHR 0x37) = CHR 0x37"
  "upper_char (CHR 0x38) = CHR 0x38" "upper_char (CHR 0x39) = CHR 0x39" "upper_char (CHR 0x3A) = CHR 0x3A"
  "upper_char (CHR 0x3B) = CHR 0x3B" "upper_char (CHR 0x3C) = CHR 0x3C" "upper_char (CHR 0x3D) = CHR 0x3D"
  "upper_char (CHR 0x3E) = CHR 0x3E" "upper_char (CHR 0x3F) = CHR 0x3F" "upper_char (CHR 0x40) = CHR 0x40"
  "upper_char (CHR 0x41) = CHR 0x41" "upper_char (CHR 0x42) = CHR 0x42" "upper_char (CHR 0x43) = CHR 0x43"
  "upper_char (CHR 0x44) = CHR 0x44" "upper_char (CHR 0x45) = CHR 0x45" "upper_char (CHR 0x46) = CHR 0x46"
  "upper_char (CHR 0x47) = CHR 0x47" "upper_char (CHR 0x48) = CHR 0x48" "upper_char (CHR 0x49) = CHR 0x49"
  "upper_char (CHR 0x4A) = CHR 0x4A" "upper_char (CHR 0x4B) = CHR 0x4B" "upper_char (CHR 0x4C) = CHR 0x4C"
  "upper_char (CHR 0x4D) = CHR 0x4D" "upper_char (CHR 0x4E) = CHR 0x4E" "upper_char (CHR 0x4F) = CHR 0x4F"
  "upper_char (CHR 0x50) = CHR 0x50" "upper_char (CHR 0x51) = CHR 0x51" "upper_char (CHR 0x52) = CHR 0x52"
  "upper_char (CHR 0x53) = CHR 0x53" "upper_char (CHR 0x54) = CHR 0x54" "upper_char (CHR 0x55) = CHR 0x55"
  "upper_char (CHR 0x56) = CHR 0x56" "upper_char (CHR 0x57) = CHR 0x57" "upper_char (CHR 0x58) = CHR 0x58"
  "upper_char (CHR 0x59) = CHR 0x59" "upper_char (CHR 0x5A) = CHR 0x5A" "upper_char (CHR 0x5B) = CHR 0x5B"
  "upper_char (CHR 0x5C) = CHR 0x5C" "upper_char (CHR 0x5D) = CHR 0x5D" "upper_char (CHR 0x5E) = CHR 0x5E"
  "upper_char (CHR 0x5F) = CHR 0x5F" "upper_char (CHR 0x60) = CHR 0x60" "upper_char (CHR 0x61) = CHR 0x41"
  "upper_char (CHR 0x62) = CHR 0x42" "upper_char (CHR 0x63) = CHR 0x43" "upper_char (CHR 0x64) = CHR 0x44"
  "upper_char (CHR 0x65) = CHR 0x45" "upper_char (CHR 0x66) = CHR 0x46" "upper_char (CHR 0x67) = CHR 0x47"
  "upper_char (CHR 0x68) = CHR 0x48" "upper_char (CHR 0x69) = CHR 0x49" "upper_char (CHR 0x6A) = CHR 0x4A"
  "upper_char (CHR 0x6B) = CHR 0x4B" "upper_char (CHR 0x6C) = CHR 0x4C" "upper_char (CHR 0x6D) = CHR 0x4D"
  "upper_char (CHR 0x6E) = CHR 0x4E" "upper_char (CHR 0x6F) = CHR 0x4F" "upper_char (CHR 0x70) = CHR 0x50"
  "upper_char (CHR 0x71) = CHR 0x51" "upper_char (CHR 0x72) = CHR 0x52" "upper_char (CHR 0x73) = CHR 0x53"
  "upper_char (CHR 0x74) = CHR 0x54" "upper_char (CHR 0x75) = CHR 0x55" "upper_char (CHR 0x76) = CHR 0x56"
  "upper_char (CHR 0x77) = CHR 0x57" "upper_char (CHR 0x78) = CHR 0x58" "upper_char (CHR 0x79) = CHR 0x59"
  "upper_char (CHR 0x7A) = CHR 0x5A" "upper_char (CHR 0x7B) = CHR 0x7B" "upper_char (CHR 0x7C) = CHR 0x7C"
  "upper_char (CHR 0x7D) = CHR 0x7D" "upper_char (CHR 0x7E) = CHR 0x7E" "upper_char (CHR 0x09) = CHR 0x09"
  "upper_char (CHR 0x0A) = CHR 0x0A" "upper_char (CHR 0x0D) = CHR 0x0D"
  by (simp_all add: upper_char_def upper_letters_def lower_letters_def)

lemma is_space_ascii:
  "is_space (CHR 0x20) = True" "is_space (CHR 0x21) = False" "is_space (CHR 0x22) = False"
  "is_space (CHR 0x23) = False" "is_space (CHR 0x24) = False" "is_space (CHR 0x25) = False"
  "is_space (CHR 0x26) = False" "is_space (CHR 0x27) = False" "is_space (CHR 0x28) = False"
  "is_space (CHR 0x29) = False" "is_space (CHR 0x2A) = False" "is_space (CHR 0x2B) = False"
  "is_space (CHR 0x2C) = False" "is_space (CHR 0x2D) = False" "is_space (CHR 0x2E) = False"
  "is_space (CHR 0x2F) = False" "is_space (CHR 0x30) = False" "is_space (CHR 0x31) = False"
  "is_space (CHR 0x32) = False" "is_space (CHR 0x33) = False" "is_space (CHR 0x34) = False"
  "is_space (CHR 0x35) = False" "is_space (CHR 0x36) = False" "is_space (CHR 0x37) = False"
  "is_space (CHR 0x38) = False" "is_space (CHR 0x39) = False" "is_space (CHR 0x3A) = False"
  "is_space (CHR 0x3B) = False" "is_space (CHR 0x3C) = False" "is_space (CHR 0x3D) = False"
  "is_space (CHR 0x3E) = False" "is_space (CHR 0x3F) = False" "is_space (CHR 0x40) = False"
  "is_space (CHR 0x41) = False" "is_space (CHR 0x42) = False" "is_space (CHR 0x43) = False"
  "is_space (CHR 0x44) = False" "is_space (CHR 0x45) = False" "is_space (CHR 0x46) = False"
  "is_space (CHR 0x47) = False" "is_space (CHR 0x48) = False" "is_space (CHR 0x49) = False"
  "is_space (CHR 0x4A) = False" "is_space (CHR 0x4B) = False" "is_space (CHR 0x4C) = False"
  "is_space (CHR 0x4D) = False" "is_space (CHR 0x4E) = False" "is_space (CHR 0x4F) = False"
  "is_space (CHR 0x50) = False" "is_space (CHR 0x51) = False" "is_space (CHR 0x52) = False"
  "is_space (CHR 0x53) = False" "is_space (CHR 0x54) = False" "is_space (CHR 0x55) = False"
  "is_space (CHR 0x56) = False" "is_space (CHR 0x57) = False" "is_space (CHR 0x58) = False"
  "is_space (CHR 0x59) = False" "is_space (CHR 0x5A) = False" "is_space (CHR 0x5B) = False"
  "is_space (CHR 0x5C) = False" "is_space (CHR 0x5D) = False" "is_space (CHR 0x5E) = False"
  "is_space (CHR 0x5F) = False" "is_space (CHR 0x60) = False" "is_space (CHR 0x61) = False"
  "is_space (CHR 0x62) = False" "is_space (CHR 0x63) = False" "is_space (CHR 0x64) = False"
  "is_space (CHR 0x65) = False" "is_space (CHR 0x66) = False" "is_space (CHR 0x67) = False"
  "is_space (CHR 0x68) = False" "is_space (CHR 0x69) = False" "is_space (CHR 0x6A) = False"
  "is_space (CHR 0x6B) = False" "is_space (CHR 0x6C) = False" "is_space (CHR 0x6D) = False"
  "is_space (CHR 0x6E) = False" "is_space (CHR 0x6F) = False" "is_space (CHR 0x70) = False"
  "is_space (CHR 0x71) = False" "is_space (CHR 0x72) = False" "is_space (CHR 0x73) = False"
  "is_space (CHR 0x74) = False" "is_space (CHR 0x75) = False" "is_space (CHR 0x76) = False"
  "is_space (CHR 0x77) = False" "is_space (CHR 0x78) = False" "is_space (CHR 0x79) = False"
  "is_space (CHR 0x7A) = False" "is_space (CHR 0x7B) = False" "is_space (CHR 0x7C) = False"
  "is_space (CHR 0x7D) = False" "is_space (CHR 0x7E) = False" "is_space (CHR 0x09) = True"
  "is_space (CHR 0x0A) = True" "is_space (CHR 0x0D) = True"
  by (simp_all add: is_space_def)

lemmas eval_rx =
  matchAll_def regex_matchAll_def regex_test_def toLowerCase_def toUpperCase_def capitalize_def lower_char_ascii
  upper_char_ascii is_space_ascii collapse_ws_def trim_def slice_def

section \<open>Properties of the clause classifier\<close>

lemma risk_partition:
  "length (filter (\<lambda>c. riskLevel c = High) xs) + length (filter (\<lambda>c. riskLevel c = Medium) xs)
     + length (filter (\<lambda>c. riskLevel c = Low) xs) = length xs"
proof (induction xs)
  case Nil
  then show ?case by simp
next
  case (Cons x xs)
  then show ?case by (cases "riskLevel x") simp_all
qed

lemma length_uniqueClauses: "length (uniqueClauses xs) = min 20 (length (removeDuplicates xs))"
  by (simp add: uniqueClauses_def sort_desc_def min.commute)

lemma all_types: "ty \<in> set clause_types"
  by (cases ty) (simp_all add: clause_types_def)

lemma clause_free_windows: "clause_free s \<Longrightarrow> contextWindows s ty = []"
proof -
  assume "clause_free s"
  then have "\<forall>pattern \<in> set (CLAUSE_PATTERNS ty). matchAll pattern s = []"
    using all_types [of ty] by (simp add: clause_free_def list_all_iff)
  then show ?thesis by (simp add: contextWindows_def)
qed

lemma clause_free_classifyAll: "clause_free s \<Longrightarrow> classifyAll rnd n s tys = []"
  by (induction tys arbitrary: n) (simp_all add: classifyClause_def clause_free_windows)

lemma removeDuplicates_Nil: "removeDuplicates [] = []"
  by (simp add: removeDuplicates_def)

lemma uniqueClauses_Nil: "uniqueClauses [] = []"
  by (simp add: uniqueClauses_def removeDuplicates_Nil sort_desc_def)

text \<open>
  C5. For every result of classifyDocument, summary.totalClauses is the length of the
  clause list and is exactly the sum of the high, medium and low counts, and the clause
  list has at most 20 entries; for a clause-free text the list is empty and the four
  counts are zero.
\<close>

theorem summary_counts:
  "totalClauses (summary (classifyDocument rnd s)) = length (clauses (classifyDocument rnd s))
   \<and> totalClauses (summary (classifyDocument rnd s))
       = highRiskClauses (summary (classifyDocument rnd s))
         + mediumRiskClauses (summary (classifyDocument rnd s))
         + lowRiskClauses (summary (classifyDocument rnd s))
   \<and> length (clauses (classifyDocument rnd s)) \<le> 20
   \<and> (clause_free s \<longrightarrow>
        clauses (classifyDocument rnd s) = []
        \<and> summary (classifyDocument rnd s)
            = \<lparr>totalClauses = 0, highRiskClauses = 0, mediumRiskClauses = 0, lowRiskClauses = 0\<rparr>)"
  by (simp add: classifyDocument_def Let_def risk_partition length_uniqueClauses
        clause_free_classifyAll uniqueClauses_Nil removeDuplicates_Nil)


lemma js_round_int: "js_round (of_int k) = of_int k"
  by (simp add: js_round_def)

lemma calculateConfidence_range:
  "0.75 \<le> calculateConfidence s ty \<and> calculateConfidence s ty \<le> 0.98
   \<and> js_round (calculateConfidence s ty * 100) / 100 = calculateConfidence s ty"
proof -
  define rel where "rel = foldl (\<lambda>acc pattern. acc + length (matchAll pattern s)) 0 (CLAUSE_PATTERNS ty)"
  define words where "words = length (filter (\<lambda>word. length word > 2) (split_char CHR '' '' s))"
  define x :: real where
    "x = min 0.98 (0.75 + (real rel / real (max words 10)) * 0.2 + min 0.15 (real (length s) / 1000))"
  have c: "calculateConfidence s ty = js_round (x * 100) / 100"
    by (simp add: calculateConfidence_def Let_def x_def rel_def words_def)
  have "0 \<le> real rel / real (max words 10)" by simp
  then have lo: "0.75 \<le> x" by (simp add: x_def)
  have hi: "x \<le> 0.98" unfolding x_def by (rule min.cobounded1)
  define k where "k = \<lfloor>x * 100 + 1 / 2\<rfloor>"
  have jr: "js_round (x * 100) = of_int k" by (simp add: js_round_def k_def)
  have "75 \<le> k" unfolding k_def using lo by (simp add: le_floor_iff)
  moreover have "k \<le> 98" unfolding k_def using hi by (simp add: floor_le_iff)
  ultimately have "0.75 \<le> (of_int k :: real) / 100" "(of_int k :: real) / 100 \<le> 0.98"
    by simp_all
  moreover have "js_round (of_int k / 100 * 100) / 100 = (of_int k :: real) / 100"
    by (simp add: js_round_int)
  ultimately show ?thesis by (simp add: c jr)
qed

lemma pushMatches_confidence:
  "c \<in> set (fst (pushMatches rnd n ty ws)) \<Longrightarrow> \<exists>s. confidence c = calculateConfidence s ty"
proof (induction ws arbitrary: n)
  case Nil
  then show ?case by simp
next
  case (Cons w ws)
  obtain a b t where w: "w = (a, b, t)" by (cases w)
  obtain lv n' where r: "assessRisk_clause rnd n t ty = (lv, n')" by (cases "assessRisk_clause rnd n t ty")
  obtain ms n'' where p: "pushMatches rnd n' ty ws = (ms, n'')" by (cases "pushMatches rnd n' ty ws")
  from Cons.prems have "confidence c = calculateConfidence t ty \<or> c \<in> set ms"
    by (auto simp: w r p Let_def)
  then show ?case
  proof
    assume "confidence c = calculateConfidence t ty"
    then show ?thesis by blast
  next
    assume "c \<in> set ms"
    then have "c \<in> set (fst (pushMatches rnd n' ty ws))" by (simp add: p)
    then show ?thesis by (rule Cons.IH)
  qed
qed

lemma classifyAll_confidence:
  "c \<in> set (classifyAll rnd n s tys) \<Longrightarrow> \<exists>t ty. confidence c = calculateConfidence t ty"
proof (induction tys arbitrary: n)
  case Nil
  then show ?case by simp
next
  case (Cons ty tys)
  obtain ms n' where p: "classifyClause rnd n s ty = (ms, n')" by (cases "classifyClause rnd n s ty")
  from Cons.prems have "c \<in> set ms \<or> c \<in> set (classifyAll rnd n' s tys)"
    by (auto simp: p)
  then show ?case
  proof
    assume "c \<in> set ms"
    then have "c \<in> set (fst (pushMatches rnd n ty (contextWindows s ty)))"
      using p by (simp add: classifyClause_def)
    then show ?thesis using pushMatches_confidence by blast
  next
    assume "c \<in> set (classifyAll rnd n' s tys)"
    then show ?thesis by (rule Cons.IH)
  qed
qed

lemma set_removeDuplicates: "set (removeDuplicates xs) \<subseteq> set xs"
  by (auto simp: removeDuplicates_def enumerate_eq_zip dest: set_zip_rightD)

lemma set_uniqueClauses: "set (uniqueClauses xs) \<subseteq> set xs"
proof -
  have "set (uniqueClauses xs) \<subseteq> set (sort_desc confidence (removeDuplicates xs))"
    unfolding uniqueClauses_def by (rule set_take_subset)
  also have "\<dots> = set (removeDuplicates xs)" by (rule set_sort_desc)
  also have "\<dots> \<subseteq> set xs" by (rule set_removeDuplicates)
  finally show ?thesis .
qed

lemma clause_confidence_range:
  assumes "c \<in> set (clauses (classifyDocument rnd s))"
  shows "0.75 \<le> confidence c \<and> confidence c \<le> 0.98
         \<and> js_round (confidence c * 100) / 100 = confidence c"
proof -
  from assms have "c \<in> set (uniqueClauses (classifyAll rnd 0 s clause_types))"
    by (simp add: classifyDocument_def Let_def)
  then have "c \<in> set (classifyAll rnd 0 s clause_types)"
    using set_uniqueClauses by blast
  then obtain t ty where "confidence c = calculateConfidence t ty"
    using classifyAll_confidence by blast
  then show ?thesis
    using calculateConfidence_range [of t ty] by simp
qed

text \<open>
  C10. Every clause match in a result of the classifier has a confidence between 0.75
  and 0.98, and the confidence is rounded to two decimal places (rounding it again
  changes nothing).
\<close>

theorem confidence_range:
  "\<forall>c \<in> set (clauses (classifyDocument rnd s)).
     0.75 \<le> confidence c \<and> confidence c \<le> 0.98
     \<and> js_round (confidence c * 100) / 100 = confidence c"
  using clause_confidence_range by blast

section \<open>The risk score of a classification result\<close>




section \<open>The deduplication step of the classifier\<close>

lemma findIndex_ge: "- 1 \<le> findIndex p xs"
  by (induction xs) (simp_all add: Let_def)

lemma findIndex_iff:
  "findIndex p xs = int i \<longleftrightarrow> i < length xs \<and> p (xs ! i) \<and> (\<forall>j<i. \<not> p (xs ! j))"
proof (induction xs arbitrary: i)
  case Nil
  then show ?case by simp
next
  case (Cons x xs)
  show ?case
  proof (cases "p x")
    case True
    then show ?thesis by (cases i) auto
  next
    case False
    show ?thesis
    proof (cases i)
      case 0
      with False findIndex_ge [of p xs] show ?thesis by (auto simp: Let_def)
    next
      case (Suc k)
      have "findIndex p (x # xs) = int (Suc k) \<longleftrightarrow> findIndex p xs = int k"
        using False findIndex_ge [of p xs] by (auto simp: Let_def)
      also have "\<dots> \<longleftrightarrow> k < length xs \<and> p (xs ! k) \<and> (\<forall>j<k. \<not> p (xs ! j))"
        by (rule Cons.IH)
      also have "\<dots> \<longleftrightarrow> Suc k < length (x # xs) \<and> p ((x # xs) ! Suc k) \<and> (\<forall>j<Suc k. \<not> p ((x # xs) ! j))"
        using False by (auto simp: less_Suc_eq_0_disj)
      finally show ?thesis by (simp add: Suc)
    qed
  qed
qed

lemma filter_enumerate:
  "map snd (filter (\<lambda>(i, x). Q i x) (enumerate 0 xs))
     = map (\<lambda>i. xs ! i) (filter (\<lambda>i. Q i (xs ! i)) [0..<length xs])"
proof -
  have "enumerate 0 xs = map (\<lambda>i. (i, xs ! i)) [0..<length xs]"
    by (rule nth_equalityI) (simp_all add: nth_enumerate_eq)
  then show ?thesis by (simp add: filter_map comp_def case_prod_unfold)
qed

text \<open>
  C4, as amended. The deduplication step keeps a match exactly when no earlier match of
  the scan has the same clause type and a start offset less than 100 away from its own;
  of two such matches the later one is dropped, whatever the confidences. The kept
  matches are then sorted by confidence, descending, and cut to the first 20.
\<close>

theorem removeDuplicates_keeps_first:
  "removeDuplicates xs
     = map (\<lambda>i. xs ! i)
         (filter (\<lambda>i. \<forall>j<i. \<not> (\<bar>startIndex (xs ! j) - startIndex (xs ! i)\<bar> < 100
                                \<and> c_type (xs ! j) = c_type (xs ! i)))
            [0..<length xs])
   \<and> uniqueClauses xs = take 20 (sort_desc confidence (removeDuplicates xs))
   \<and> sorted_wrt (\<lambda>a b. confidence b \<le> confidence a) (uniqueClauses xs)
   \<and> length (uniqueClauses xs) \<le> 20
   \<and> clauses (classifyDocument rnd s) = uniqueClauses (classifyAll rnd 0 s clause_types)"
proof -
  let ?near = "\<lambda>c clause. \<bar>startIndex c - startIndex clause\<bar> < 100 \<and> c_type c = c_type clause"
  have "removeDuplicates xs
          = map (\<lambda>i. xs ! i) (filter (\<lambda>i. int i = findIndex (\<lambda>c. ?near c (xs ! i)) xs) [0..<length xs])"
    unfolding removeDuplicates_def by (rule filter_enumerate)
  also have "filter (\<lambda>i. int i = findIndex (\<lambda>c. ?near c (xs ! i)) xs) [0..<length xs]
          = filter (\<lambda>i. \<forall>j<i. \<not> ?near (xs ! j) (xs ! i)) [0..<length xs]"
  proof (rule filter_cong [OF refl])
    fix i assume "i \<in> set [0..<length xs]"
    then have "i < length xs" by simp
    then show "(int i = findIndex (\<lambda>c. ?near c (xs ! i)) xs) = (\<forall>j<i. \<not> ?near (xs ! j) (xs ! i))"
      using findIndex_iff [of "\<lambda>c. ?near c (xs ! i)" xs i] by auto
  qed
  finally have a: "removeDuplicates xs
     = map (\<lambda>i. xs ! i) (filter (\<lambda>i. \<forall>j<i. \<not> ?near (xs ! j) (xs ! i)) [0..<length xs])" .
  have "sorted (map (\<lambda>x. - confidence x) (sort_desc confidence (removeDuplicates xs)))"
    by (rule sorted_sort_desc)
  then have "sorted_wrt (\<lambda>a b. confidence b \<le> confidence a) (sort_desc confidence (removeDuplicates xs))"
    by (simp add: sorted_map)
  then have s: "sorted_wrt (\<lambda>a b. confidence b \<le> confidence a) (uniqueClauses xs)"
    unfolding uniqueClauses_def by (rule sorted_wrt_take)
  have d: "clauses (classifyDocument rnd s) = uniqueClauses (classifyAll rnd 0 s clause_types)"
    by (simp add: classifyDocument_def Let_def)
  show ?thesis using a s d by (simp add: uniqueClauses_def)
qed

theorem summary_counts_witness:
  "clause_free t2 \<and> clauses (classifyDocument rnd0 t2) = []
   \<and> summary (classifyDocument rnd0 t2)
       = \<lparr>totalClauses = 0, highRiskClauses = 0, mediumRiskClauses = 0, lowRiskClauses = 0\<rparr>"
proof -
  have h: "clause_free t2"
    by (simp add: clause_free_def clause_types_def t2_def eval_rx)
  show ?thesis using summary_counts [of rnd0 t2] h by blast
qed

lemma windows_t4:
  "contextWindows t4 Termination = [(0, 53, t4)]"
  "contextWindows t4 Nda = []"
  "contextWindows t4 Payment = []"
  "contextWindows t4 Liability = []"
  "contextWindows t4 Intellectual_property = []"
  by (simp_all add: contextWindows_def t4_def eval_rx Let_def)

lemma confidence_t4: "calculateConfidence t4 Termination = 0.82"
  by (simp add: calculateConfidence_def t4_def eval_rx Let_def js_round_def)

lemma risk_t4: "assessRisk_clause rnd0 0 t4 Termination = (Low, 1)"
  by (simp add: assessRisk_clause_def t4_def eval_rx Let_def RISK_KEYWORDS_high_def
        RISK_KEYWORDS_medium_def rnd0_def)

lemma classifyAll_t4: "classifyAll rnd0 0 t4 clause_types = [m4]"
  by (simp add: clause_types_def classifyClause_def windows_t4 confidence_t4 risk_t4 m4_def)

lemma uniqueClauses_single: "uniqueClauses [m] = [m]"
  by (simp add: uniqueClauses_def removeDuplicates_def sort_desc_def enumerate_eq_zip)

lemma classify_t4: "clauses (classifyDocument rnd0 t4) = [m4]"
  by (simp add: classifyDocument_def Let_def classifyAll_t4 uniqueClauses_single)

theorem confidence_range_witness:
  "clauses (classifyDocument rnd0 t4) = [m4]
   \<and> 0.75 \<le> confidence m4 \<and> confidence m4 \<le> 0.98
   \<and> js_round (confidence m4 * 100) / 100 = confidence m4"
  using confidence_range [of rnd0 t4] classify_t4 by simp

text \<open>
  C4 as stated fails: of two matches of one type whose start offsets are 40 apart, the
  step keeps the first of the scan, of confidence 0.91, and drops the second, of
  confidence 0.92.
\<close>

theorem duplicates_keep_first_not_best:
  "uniqueClauses [dup1, dup2] = [dup1]
   \<and> c_type dup1 = c_type dup2
   \<and> \<bar>startIndex dup1 - startIndex dup2\<bar> < 100
   \<and> confidence dup1 < confidence dup2"
  by (simp add: uniqueClauses_def removeDuplicates_def sort_desc_def enumerate_eq_zip upt_rec
        dup1_def dup2_def)

theorem removeDuplicates_keeps_first_witness:
  "removeDuplicates [dup1, dup2, dup1\<lparr>startIndex := 140\<rparr>] = [dup1, dup1\<lparr>startIndex := 140\<rparr>]
   \<and> sorted_wrt (\<lambda>a b. confidence b \<le> confidence a)
         (uniqueClauses [dup1, dup2, dup1\<lparr>startIndex := 140\<rparr>])"
proof -
  let ?xs = "[dup1, dup2, dup1\<lparr>startIndex := 140\<rparr>]"
  let ?kept = "map (\<lambda>i. ?xs ! i)
         (filter (\<lambda>i. \<forall>j<i. \<not> (\<bar>startIndex (?xs ! j) - startIndex (?xs ! i)\<bar> < 100
                                \<and> c_type (?xs ! j) = c_type (?xs ! i)))
            [0..<length ?xs])"
  have e: "?kept = [dup1, dup1\<lparr>startIndex := 140\<rparr>]"
    by (simp add: upt_rec less_Suc_eq all_conj_distrib dup1_def dup2_def)
  have "removeDuplicates ?xs = ?kept
        \<and> sorted_wrt (\<lambda>a b. confidence b \<le> confidence a) (uniqueClauses ?xs)"
    using removeDuplicates_keeps_first [of ?xs] by blast
  then show ?thesis unfolding e .
qed

section \<open>Properties of the abstractive summarizer\<close>















lemmas eval_summarizer =
  split_runs_def sentence_end_def set_to_array_def set_add_def lowerFirst_def

lemma themes_t5: "extractLegalThemes t5 = []"
  by (simp add: extractLegalThemes_def legalPatterns_def phrase_count_def t5_def eval_rx
        eval_summarizer Let_def)

lemma sentences_t5:
  "split_runs sentence_end t5
     = [''a breach here'', '' a breach here'', '' a breach here'', '' a breach here'', []]"
  by (simp add: t5_def eval_summarizer)

lemma phrases_t5:
  "addSentencePhrases [] ''a breach here'' = [''a breach here'']"
  "addSentencePhrases [''a breach here''] '' a breach here''
     = [''a breach here'', '' a breach here'']"
  "addSentencePhrases [''a breach here'', '' a breach here''] '' a breach here''
     = [''a breach here'', '' a breach here'']"
  by (simp_all add: addSentencePhrases_def addTermPhrase_def legalTerms_def contextPhrase_def
        eval_rx eval_summarizer Let_def)

lemma terms_t5:
  "foldl addSentencePhrases [] (filter (\<lambda>s. length (trim s) > 10) (split_runs sentence_end t5))
     = [''a breach here'', '' a breach here'']"
  by (simp add: sentences_t5 phrases_t5 eval_rx)

lemma set_to_array_ne: "set_to_array (x # xs) \<noteq> []"
proof -
  have "\<And>acc. acc \<noteq> [] \<Longrightarrow> foldl (\<lambda>acc x. if x \<in> set acc then acc else acc @ [x]) acc xs \<noteq> []"
    by (induction xs) simp_all
  then show ?thesis by (simp add: set_to_array_def)
qed

lemma preserved_t5: "take 3 (preserveOriginalTerms em t5 []) \<noteq> []"
  using set_to_array_ne by (simp add: preserveOriginalTerms_def Let_def terms_t5)

lemma long_sentences_t5: "filter (\<lambda>s. length (trim s) > 15) (split_runs sentence_end t5) = []"
  by (simp add: sentences_t5 eval_rx)

lemma sections_t5:
  "createDetailedSections t5 [] rels (preserveOriginalTerms em t5 []) = Inl TypeError"
  using preserved_t5 [of em]
  by (simp add: createDetailedSections_def createGeneralSection_def generateSectionSummary_def
        long_sentences_t5 Let_def)

lemma body_t5: "summaryBody em rnd time0 time1 t5 = Inl TypeError"
  by (simp add: summaryBody_def Let_def themes_t5 sections_t5)

lemma fallback_t5:
  "generateAbstractiveSummary em rnd time0 time1 time2 t5
     = \<lparr>summary_a = ''.'', keyPoints = [], confidence_a = 0.6,
        processingTime = time2 - (time1 - time0), method_a = Rule_based,
        originalTermsPreserved = [], detailedSections = []\<rparr>"
proof -
  have "filter (\<lambda>s. length (trim s) > 20) (split_runs sentence_end t5) = []"
    by (simp add: sentences_t5 eval_rx)
  then show ?thesis
    by (simp add: generateAbstractiveSummary_def body_t5 fallbackSummary_def Let_def)
qed











section \<open>Properties of the multilingual summarizer\<close>















lemma body_t5_down: "generateAbstractiveSummary no_entities rnd0 0 1 2 t5
     = \<lparr>summary_a = ''.'', keyPoints = [], confidence_a = 0.6,
        processingTime = 1, method_a = Rule_based,
        originalTermsPreserved = [], detailedSections = []\<rparr>"
  by (simp add: fallback_t5)


end
